theory Spec2Isabelle
  imports Main
begin

section \<open>JavaScript values\<close>

text \<open>
  A JavaScript string is modelled by the byte sequence of its UTF-8 encoding, so that
  \<^verbatim>\<open>Buffer.from(s, 'utf8')\<close> is the identity and a \<^verbatim>\<open>Buffer\<close> is a \<open>string\<close> too.
  An optional value (\<^verbatim>\<open>undefined\<close>) is \<open>None\<close>. A string is falsy exactly when it
  is empty or absent.
\<close>

definition truthy :: "string option \<Rightarrow> bool" where
  "truthy v = (case v of None \<Rightarrow> False | Some s \<Rightarrow> s \<noteq> [])"

text \<open>\<^verbatim>\<open>a || b\<close> on optional strings.\<close>

definition or_else :: "string option \<Rightarrow> string option \<Rightarrow> string option" where
  "or_else a b = (if truthy a then a else b)"

text \<open>\<^verbatim>\<open>a || 'literal'\<close>: the right operand is a string, so the result is one.\<close>

definition or_default :: "string option \<Rightarrow> string \<Rightarrow> string" where
  "or_default a d = (case a of None \<Rightarrow> d | Some s \<Rightarrow> if s \<noteq> [] then s else d)"

text \<open>Decimal rendering of an integral number (\<^verbatim>\<open>toString\<close>, \<^verbatim>\<open>String(n)\<close>).\<close>

fun digits :: "nat \<Rightarrow> string" where
  "digits n =
     (if n < 10 then [''0123456789'' ! n]
      else digits (n div 10) @ [''0123456789'' ! (n mod 10)])"

declare digits.simps [simp del]

definition toString :: "int \<Rightarrow> string" where
  "toString n = (if n < 0 then CHR ''-'' # digits (nat (- n)) else digits (nat n))"

section \<open>GenericFunctions.ts: the error normalizer\<close>

datatype EntityType = Record | Job | File

text \<open>
  The shape \<^verbatim>\<open>handleApiError\<close> casts the caught value to:
  \<^verbatim>\<open>{ statusCode?, message?, response?: { body?: { error?: { message? } } } }\<close>.
\<close>

record api_error =
  error_message :: "string option"

record api_body =
  body_error :: "api_error option"

record api_response =
  response_body :: "api_body option"

record http_error =
  statusCode :: "int option"
  he_message :: "string option"
  he_response :: "api_response option"

text \<open>\<^verbatim>\<open>httpError.response?.body?.error?.message\<close>\<close>

definition response_error_message :: "http_error \<Rightarrow> string option" where
  "response_error_message e =
     (case he_response e of None \<Rightarrow> None
      | Some r \<Rightarrow> (case response_body r of None \<Rightarrow> None
        | Some b \<Rightarrow> (case body_error b of None \<Rightarrow> None
          | Some x \<Rightarrow> error_message x)))"

definition apiMessage :: "http_error \<Rightarrow> string" where
  "apiMessage e = or_default (or_else (response_error_message e) (he_message e)) ''Unknown issue''"

text \<open>The options handed to the \<^verbatim>\<open>NodeApiError\<close> constructor, with the caught error.\<close>

record node_api_error =
  nae_cause :: http_error
  nae_message :: string
  nae_description :: string
  nae_httpCode :: "string option"
  nae_itemIndex :: nat

record message_pair =
  pair_message :: string
  pair_description :: string

definition notFoundMessages :: "EntityType \<Rightarrow> message_pair" where
  "notFoundMessages t = (case t of
     Record \<Rightarrow> \<lparr>pair_message = ''Record not found'',
                 pair_description = ''The specified record does not exist''\<rparr>
   | Job \<Rightarrow> \<lparr>pair_message = ''Job not found'',
              pair_description = ''The specified job ID does not exist or has expired''\<rparr>
   | File \<Rightarrow> \<lparr>pair_message = ''File not found'',
               pair_description = ''The specified file does not exist or has been deleted''\<rparr>)"

definition conflictMessages :: "string \<Rightarrow> EntityType \<Rightarrow> message_pair" where
  \<open>conflictMessages apiMsg t = (case t of
     Record \<Rightarrow> \<lparr>pair_message = ''Record already exists'', pair_description = apiMsg\<rparr>
   | Job \<Rightarrow> \<lparr>pair_message = ''Job already exists'', pair_description = apiMsg\<rparr>
   | File \<Rightarrow> \<lparr>pair_message = ''File already exists'',
               pair_description =
                 ''Use "Create or Replace" operation to overwrite existing files''\<rparr>)\<close>

definition rateLimitMessages :: "EntityType \<Rightarrow> string" where
  "rateLimitMessages t = (case t of
     Record \<Rightarrow> ''Storage limit reached''
   | Job \<Rightarrow> ''Rate limit exceeded''
   | File \<Rightarrow> ''Storage limit reached'')"

text \<open>The \<^verbatim>\<open>switch (statusCode)\<close>: message and description.\<close>

definition status_messages :: "http_error \<Rightarrow> string \<Rightarrow> EntityType \<Rightarrow> message_pair" where
  "status_messages e operation entityType =
     (if statusCode e = Some 400 then
        \<lparr>pair_message = ''Invalid request'', pair_description = apiMessage e\<rparr>
      else if statusCode e = Some 401 then
        \<lparr>pair_message = ''Invalid API key'',
         pair_description = ''Check your Ainoflow API credentials''\<rparr>
      else if statusCode e = Some 404 then
        \<lparr>pair_message = pair_message (notFoundMessages entityType),
         pair_description = pair_description (notFoundMessages entityType)\<rparr>
      else if statusCode e = Some 409 then
        \<lparr>pair_message = pair_message (conflictMessages (apiMessage e) entityType),
         pair_description = pair_description (conflictMessages (apiMessage e) entityType)\<rparr>
      else if statusCode e = Some 429 then
        \<lparr>pair_message = rateLimitMessages entityType,
         pair_description = ''API rate/count limit reached for current scope''\<rparr>
      else if statusCode e = Some 500 \<or> statusCode e = Some 502 \<or> statusCode e = Some 503 then
        \<lparr>pair_message = ''Server returned an unexpected response'',
         pair_description = ''Ainoflow API response: '' @ apiMessage e\<rparr>
      else
        \<lparr>pair_message = ''Could not '' @ operation, pair_description = apiMessage e\<rparr>)"

definition handleApiError ::
  "http_error \<Rightarrow> nat \<Rightarrow> string \<Rightarrow> EntityType \<Rightarrow> node_api_error" where
  "handleApiError e itemIndex operation entityType =
     \<lparr>nae_cause = e,
      nae_message = pair_message (status_messages e operation entityType),
      nae_description = pair_description (status_messages e operation entityType),
      nae_httpCode = map_option toString (statusCode e),
      nae_itemIndex = itemIndex\<rparr>"


section \<open>Path segments: \<^verbatim>\<open>encodeURIComponent\<close>\<close>

text \<open>
  The built-in of the language, on the UTF-8 bytes of a well-formed string: the unreserved
  characters \<^verbatim>\<open>A-Z a-z 0-9 - _ . ! ~ * ' ( )\<close> stand for themselves, every other byte
  becomes \<^verbatim>\<open>%XX\<close> with two upper-case hexadecimal digits.
\<close>

definition uriUnreserved :: "char \<Rightarrow> bool" where
  "uriUnreserved c =
     (c \<in> set ''ABCDEFGHIJKLMNOPQRSTUVWXYZabcdefghijklmnopqrstuvwxyz0123456789-_.!~*()''
      \<or> c = CHR 0x27)"

definition hexDigit :: "nat \<Rightarrow> char" where
  "hexDigit n = ''0123456789ABCDEF'' ! n"

definition percentEncode :: "char \<Rightarrow> string" where
  "percentEncode c =
     [CHR ''%'', hexDigit ((of_char c :: nat) div 16), hexDigit ((of_char c :: nat) mod 16)]"

definition encodeByte :: "char \<Rightarrow> string" where
  "encodeByte c = (if uriUnreserved c then [c] else percentEncode c)"

definition encodeURIComponent :: "string \<Rightarrow> string" where
  "encodeURIComponent s = concat (map encodeByte s)"



section \<open>Request descriptors\<close>

datatype http_method = GET | POST | PUT | PATCH | DELETE

datatype scalar = JString string | JNumber int | JBoolean bool

datatype 'j request_body = JsonBody 'j | BufferBody string

text \<open>
  The fields of \<^verbatim>\<open>IHttpRequestOptions\<close> the nodes set. A field the object literal does
  not mention is \<open>None\<close>.
\<close>

record 'j request_options =
  req_method :: http_method
  req_baseURL :: "string option"
  req_url :: string
  req_qs :: "(string \<times> scalar) list option"
  req_headers :: "(string \<times> string) list option"
  req_body :: "'j request_body option"
  req_timeout :: "nat option"
  req_encoding :: "string option"
  req_returnFullResponse :: "bool option"

text \<open>A request with a method and a URL, and nothing else set.\<close>

definition request :: "http_method \<Rightarrow> string option \<Rightarrow> string \<Rightarrow> 'j request_options" where
  "request m b u =
     \<lparr>req_method = m, req_baseURL = b, req_url = u, req_qs = None, req_headers = None,
      req_body = None, req_timeout = None, req_encoding = None,
      req_returnFullResponse = None\<rparr>"

record credentials =
  cred_apiKey :: string
  cred_baseUrl :: "string option"

definition DEFAULT_BASE_URL :: string where
  "DEFAULT_BASE_URL = ''https://api.ainoflow.io''"

definition getBaseUrl :: "credentials \<Rightarrow> string" where
  "getBaseUrl c = or_default (cred_baseUrl c) DEFAULT_BASE_URL"

text \<open>\<^verbatim>\<open>Object.keys(qs).length > 0 ? qs : undefined\<close>\<close>

definition qs_or_undefined :: "(string \<times> scalar) list \<Rightarrow> (string \<times> scalar) list option" where
  "qs_or_undefined q = (if length q > 0 then Some q else None)"

text \<open>A thrown \<^verbatim>\<open>NodeOperationError\<close>: its message and the item index.\<close>

record node_operation_error =
  noe_message :: string
  noe_itemIndex :: nat

section \<open>The multipart body builders\<close>

definition CRLF :: string where
  "CRLF = [CHR 0x0D, CHR 0x0A]"

text \<open>
  \<^verbatim>\<open>`----n8nFormBoundary${Date.now()}${Math.random().toString(36).substring(2)}`\<close>:
  the clock value and the rendered random number are inputs of the model.
\<close>

definition formBoundary :: "int \<Rightarrow> string \<Rightarrow> string" where
  "formBoundary now rnd = ''----n8nFormBoundary'' @ toString now @ rnd"

definition filePreamble :: "string \<Rightarrow> string \<Rightarrow> string \<Rightarrow> string" where
  \<open>filePreamble boundary fileName mimeType =
     ''--'' @ boundary @ CRLF @
     ''Content-Disposition: form-data; name="file"; filename="'' @ fileName @ ''"'' @ CRLF @
     ''Content-Type: '' @ mimeType @ CRLF @ CRLF\<close>

definition fieldPart :: "string \<Rightarrow> string \<Rightarrow> string \<Rightarrow> string" where
  \<open>fieldPart boundary name val =
     ''--'' @ boundary @ CRLF @
     ''Content-Disposition: form-data; name="'' @ name @ ''"'' @ CRLF @ CRLF @
     val @ CRLF\<close>

definition closingBoundary :: "string \<Rightarrow> string" where
  "closingBoundary boundary = ''--'' @ boundary @ ''--'' @ CRLF"

text \<open>
  \<^verbatim>\<open>for (const [name, value] of Object.entries(additionalFields)) if (value) parts.push(...)\<close>:
  the entries are an association list in the order \<^verbatim>\<open>Object.entries\<close> gives them.
\<close>

fun pushFields :: "string \<Rightarrow> (string \<times> string) list \<Rightarrow> string list \<Rightarrow> string list" where
  "pushFields boundary [] parts = parts"
| "pushFields boundary ((name, val) # rest) parts =
     pushFields boundary rest
       (if val \<noteq> [] then parts @ [fieldPart boundary name val] else parts)"

record multipart =
  mp_body :: string
  mp_boundary :: string

definition buildMultipartBody ::
  "string \<Rightarrow> string \<Rightarrow> string \<Rightarrow> (string \<times> string) list \<Rightarrow> int \<Rightarrow> string \<Rightarrow> multipart" where
  "buildMultipartBody fileBuffer fileName mimeType additionalFields now rnd =
     (let boundary = formBoundary now rnd;
          parts = [filePreamble boundary fileName mimeType, fileBuffer, CRLF];
          parts = pushFields boundary additionalFields parts;
          parts = parts @ [closingBoundary boundary]
      in \<lparr>mp_body = concat parts, mp_boundary = boundary\<rparr>)"

definition buildUrlMultipartBody ::
  "string \<Rightarrow> (string \<times> string) list \<Rightarrow> int \<Rightarrow> string \<Rightarrow> multipart" where
  "buildUrlMultipartBody sourceUrl additionalFields now rnd =
     (let boundary = formBoundary now rnd;
          parts = [fieldPart boundary ''sourceUrl'' sourceUrl];
          parts = pushFields boundary additionalFields parts;
          parts = parts @ [closingBoundary boundary]
      in \<lparr>mp_body = concat parts, mp_boundary = boundary\<rparr>)"

subsection \<open>The wire format, as the specification words it\<close>

text \<open>
  A multipart part: its name, for a file part its filename and content type, and its
  payload.
\<close>

record part =
  part_name :: string
  part_filename :: "string option"
  part_contentType :: "string option"
  part_payload :: string

definition file_part :: "string \<Rightarrow> string \<Rightarrow> string \<Rightarrow> part" where
  "file_part fileName mimeType fileBuffer =
     \<lparr>part_name = ''file'', part_filename = Some fileName, part_contentType = Some mimeType,
      part_payload = fileBuffer\<rparr>"

definition field_part :: "string \<times> string \<Rightarrow> part" where
  "field_part f =
     \<lparr>part_name = fst f, part_filename = None, part_contentType = None,
      part_payload = snd f\<rparr>"

text \<open>
  Each part begins with \<^verbatim>\<open>--{boundary}\<close> and CRLF, then the Content-Disposition header
  with the name (and the filename, for a file part), then the Content-Type header for a
  file part, a blank line, the payload and a trailing CRLF.
\<close>

definition render_part :: "string \<Rightarrow> part \<Rightarrow> string" where
  \<open>render_part boundary p =
     ''--'' @ boundary @ CRLF @
     ''Content-Disposition: form-data; name="'' @ part_name p @ ''"'' @
     (case part_filename p of None \<Rightarrow> [] | Some f \<Rightarrow> ''; filename="'' @ f @ ''"'') @ CRLF @
     (case part_contentType p of None \<Rightarrow> [] | Some t \<Rightarrow> ''Content-Type: '' @ t @ CRLF) @
     CRLF @ part_payload p @ CRLF\<close>

text \<open>The parts in order, closed by \<^verbatim>\<open>--{boundary}--\<close> and CRLF.\<close>

definition render_multipart :: "string \<Rightarrow> part list \<Rightarrow> string" where
  "render_multipart boundary parts =
     concat (map (render_part boundary) parts) @ ''--'' @ boundary @ ''--'' @ CRLF"

subsection \<open>A reader of multipart bodies\<close>

















section \<open>The Files node: request assemblers\<close>

definition files_API_BASE_PATH :: string where
  "files_API_BASE_PATH = ''/api/v1/files''"

definition MAX_LIMIT_PER_REQUEST :: nat where
  "MAX_LIMIT_PER_REQUEST = 1000"

definition UPLOAD_TIMEOUT_MS :: nat where
  "UPLOAD_TIMEOUT_MS = 600000"

datatype InputSource = Binary | Url

record files_CreateAdditionalFields =
  fc_key :: "string option"
  fc_expiresAt :: "string option"

record binary_data =
  bin_fileName :: "string option"
  bin_mimeType :: "string option"
  bin_buffer :: string

text \<open>What an upload reads from the item: the source URL parameter and the binary property.\<close>

record upload_source =
  src_sourceUrl :: string
  src_binary :: binary_data

text \<open>\<^verbatim>\<open>if (options.expiresAt) additionalFields.expiresAt = options.expiresAt\<close>\<close>

definition files_additionalFields :: "string option \<Rightarrow> (string \<times> string) list" where
  "files_additionalFields expiresAt =
     (if truthy expiresAt then [(''expiresAt'', the expiresAt)] else [])"

definition uploadViaBinary ::
  "credentials \<Rightarrow> binary_data \<Rightarrow> string \<Rightarrow> http_method \<Rightarrow> (string \<times> string) list \<Rightarrow>
   int \<Rightarrow> string \<Rightarrow> 'j request_options" where
  "uploadViaBinary creds binaryData url m additionalFields now rnd =
     (let fileName = or_default (bin_fileName binaryData) ''file'';
          mimeType = or_default (bin_mimeType binaryData) ''application/octet-stream'';
          mp = buildMultipartBody (bin_buffer binaryData) fileName mimeType additionalFields
                 now rnd;
          baseUrl = or_default (cred_baseUrl creds) DEFAULT_BASE_URL
      in (request m None (baseUrl @ url))
           \<lparr>req_headers := Some
              [(''Authorization'', ''Bearer '' @ cred_apiKey creds),
               (''Content-Type'', ''multipart/form-data; boundary='' @ mp_boundary mp)],
            req_body := Some (BufferBody (mp_body mp)),
            req_timeout := Some UPLOAD_TIMEOUT_MS\<rparr>)"

definition uploadViaUrl ::
  "credentials \<Rightarrow> string \<Rightarrow> nat \<Rightarrow> string \<Rightarrow> http_method \<Rightarrow> (string \<times> string) list \<Rightarrow>
   int \<Rightarrow> string \<Rightarrow> node_operation_error + 'j request_options" where
  "uploadViaUrl creds sourceUrl itemIndex url m additionalFields now rnd =
     (if sourceUrl = [] then
        Inl \<lparr>noe_message = ''Source URL is required'', noe_itemIndex = itemIndex\<rparr>
      else
        (let baseURL = getBaseUrl creds;
             mp = buildUrlMultipartBody sourceUrl additionalFields now rnd
         in Inr ((request m (Some baseURL) url)
              \<lparr>req_headers := Some
                 [(''Content-Type'', ''multipart/form-data; boundary='' @ mp_boundary mp)],
               req_body := Some (BufferBody (mp_body mp)),
               req_timeout := Some UPLOAD_TIMEOUT_MS\<rparr>)))"

definition files_executeCreate_url :: "string \<Rightarrow> string option \<Rightarrow> string" where
  "files_executeCreate_url category key =
     (let url = files_API_BASE_PATH @ ''/'' @ encodeURIComponent category
      in if truthy key then url @ ''/'' @ encodeURIComponent (the key) else url)"

definition files_executeCreate ::
  "credentials \<Rightarrow> upload_source \<Rightarrow> nat \<Rightarrow> string \<Rightarrow> InputSource \<Rightarrow>
   files_CreateAdditionalFields \<Rightarrow> int \<Rightarrow> string \<Rightarrow>
   node_operation_error + 'j request_options" where
  "files_executeCreate creds src itemIndex category inputSource options now rnd =
     (let url = files_executeCreate_url category (fc_key options);
          additionalFields = files_additionalFields (fc_expiresAt options)
      in if inputSource = Url then
           uploadViaUrl creds (src_sourceUrl src) itemIndex url POST additionalFields now rnd
         else
           Inr (uploadViaBinary creds (src_binary src) url POST additionalFields now rnd))"

definition files_executeCreateOrReplace_url :: "string \<Rightarrow> string \<Rightarrow> string" where
  "files_executeCreateOrReplace_url category key =
     files_API_BASE_PATH @ ''/'' @ encodeURIComponent category @ ''/'' @ encodeURIComponent key"

definition files_executeCreateOrReplace ::
  "credentials \<Rightarrow> upload_source \<Rightarrow> nat \<Rightarrow> string \<Rightarrow> string \<Rightarrow> InputSource \<Rightarrow>
   string option \<Rightarrow> int \<Rightarrow> string \<Rightarrow> node_operation_error + 'j request_options" where
  "files_executeCreateOrReplace creds src itemIndex category key inputSource expiresAt now rnd =
     (let url = files_executeCreateOrReplace_url category key;
          additionalFields = files_additionalFields expiresAt
      in if inputSource = Url then
           uploadViaUrl creds (src_sourceUrl src) itemIndex url PUT additionalFields now rnd
         else
           Inr (uploadViaBinary creds (src_binary src) url PUT additionalFields now rnd))"

definition files_executeDownload :: "credentials \<Rightarrow> string \<Rightarrow> string \<Rightarrow> 'j request_options" where
  "files_executeDownload creds category key =
     (request GET (Some (getBaseUrl creds))
        (files_API_BASE_PATH @ ''/'' @ encodeURIComponent category @ ''/'' @
         encodeURIComponent key))
       \<lparr>req_encoding := Some ''arraybuffer'', req_returnFullResponse := Some True\<rparr>"

definition files_executeDelete :: "credentials \<Rightarrow> string \<Rightarrow> string \<Rightarrow> 'j request_options" where
  "files_executeDelete creds category key =
     request DELETE (Some (getBaseUrl creds))
       (files_API_BASE_PATH @ ''/'' @ encodeURIComponent category @ ''/'' @
        encodeURIComponent key)"

definition files_executeGetMetadata :: "credentials \<Rightarrow> string \<Rightarrow> string \<Rightarrow> 'j request_options" where
  "files_executeGetMetadata creds category key =
     request GET (Some (getBaseUrl creds))
       (files_API_BASE_PATH @ ''/'' @ encodeURIComponent category @ ''/'' @
        encodeURIComponent key @ ''/meta'')"

text \<open>\<^verbatim>\<open>if (options.expirySeconds) qs.expirySeconds = options.expirySeconds\<close>: a number is
  truthy when it is present and not zero.\<close>

definition files_executeGetUrl ::
  "credentials \<Rightarrow> string \<Rightarrow> string \<Rightarrow> int option \<Rightarrow> 'j request_options" where
  "files_executeGetUrl creds category key expirySeconds =
     (let qs = (case expirySeconds of
                  None \<Rightarrow> []
                | Some n \<Rightarrow> if n \<noteq> 0 then [(''expirySeconds'', JNumber n)] else [])
      in (request GET (Some (getBaseUrl creds))
            (files_API_BASE_PATH @ ''/'' @ encodeURIComponent category @ ''/'' @
             encodeURIComponent key @ ''/url''))
           \<lparr>req_qs := qs_or_undefined qs\<rparr>)"

definition files_executeCategoryGetMany :: "credentials \<Rightarrow> 'j request_options" where
  "files_executeCategoryGetMany creds =
     request GET (Some (getBaseUrl creds)) files_API_BASE_PATH"

section \<open>List endpoints\<close>

text \<open>
  \<^verbatim>\<open>AggregatedResponse<T>\<close>. The category listing has no \<^verbatim>\<open>category\<close> field, and the
  code guards a missing \<^verbatim>\<open>items\<close> field (\<^verbatim>\<open>.items || []\<close>), so both are optional.
\<close>

record 'a AggregatedResponse =
  agg_category :: "string option"
  agg_items :: "'a list option"
  agg_totalCount :: int
  agg_page :: int
  agg_pageSize :: int
  agg_totalPages :: int

text \<open>A list endpoint answers with a bare array or with a wrapper object.\<close>

datatype 'a list_response = ArrayResponse "'a list" | ObjectResponse "'a AggregatedResponse"

text \<open>\<^verbatim>\<open>Array.isArray(response) ? response : response.items || []\<close>\<close>

definition response_items :: "'a list_response \<Rightarrow> 'a list" where
  "response_items r =
     (case r of
        ArrayResponse xs \<Rightarrow> xs
      | ObjectResponse wrapper \<Rightarrow> (case agg_items wrapper of None \<Rightarrow> [] | Some xs \<Rightarrow> xs))"

text \<open>
  The HTTP helper: it takes a request descriptor and the state of the world (the remote
  service), and resolves with a response or rejects with an error, in a new state.
\<close>

type_synonym ('j, 'a, 'w) transport =
  "'j request_options \<Rightarrow> 'w \<Rightarrow> (http_error + 'a list_response) \<times> 'w"

text \<open>
  The body of one \<^verbatim>\<open>try { ... } catch (error) { throw handleApiError(...) }\<close> of a list
  request: the items of the response, or the normalized error. \<open>onError\<close> is the call of
  \<^verbatim>\<open>handleApiError\<close> in the \<^verbatim>\<open>catch\<close>.
\<close>

definition fetchItems ::
  "('j, 'a, 'w) transport \<Rightarrow> (http_error \<Rightarrow> node_api_error) \<Rightarrow> 'j request_options \<Rightarrow> 'w \<Rightarrow>
   (node_api_error + 'a list) \<times> 'w" where
  "fetchItems http onError requestOptions w =
     (case http requestOptions w of
        (Inl error, w') \<Rightarrow> (Inl (onError error), w')
      | (Inr response, w') \<Rightarrow> (Inr (response_items response), w'))"

text \<open>
  The loop of the three return-all branches:
  \<^verbatim>\<open>while (hasMore) { items = fetch(cursor); allItems.push(...items);
     hasMore = items.length === MAX_LIMIT_PER_REQUEST; cursor = advance(cursor) }\<close>.
  A rejected request leaves the loop with the error. The loop need not end (a service
  that answers full pages forever), so its result is optional.
\<close>

partial_function (option) collectPages ::
  "(int \<Rightarrow> 'w \<Rightarrow> ('e + 'a list) \<times> 'w) \<Rightarrow> (int \<Rightarrow> int) \<Rightarrow> int \<Rightarrow> 'a list \<Rightarrow> 'w \<Rightarrow>
   (('e + 'a list) \<times> 'w) option" where
  "collectPages fetchPage advance cursor allItems w =
     (case fetchPage cursor w of
        (Inl error, w') \<Rightarrow> Some (Inl error, w')
      | (Inr items, w') \<Rightarrow>
          if length items = MAX_LIMIT_PER_REQUEST
          then collectPages fetchPage advance (advance cursor) (allItems @ items) w'
          else Some (Inr (allItems @ items), w'))"

text \<open>
  A page source for tests of the collectors: the state is the list of pages still to be
  served and the requests received so far. Each request is recorded and answered with
  the next page as a bare array, and with the empty page once the list is used up.
\<close>

definition pageSource ::
  "'j request_options \<Rightarrow> 'a list list \<times> 'j request_options list \<Rightarrow>
   (http_error + 'a list_response) \<times> ('a list list \<times> 'j request_options list)" where
  "pageSource requestOptions w =
     (case fst w of
        [] \<Rightarrow> (Inr (ArrayResponse []), ([], snd w @ [requestOptions]))
      | p # ps \<Rightarrow> (Inr (ArrayResponse p), (ps, snd w @ [requestOptions])))"


subsection \<open>Files: \<^verbatim>\<open>executeFileGetMany\<close>\<close>

record files_GetManyAdditionalFields =
  gm_offset :: "int option"
  gm_prefix :: "string option"
  gm_sortBy :: "string option"
  gm_sortOrder :: "string option"
  gm_aggregate :: "bool option"

text \<open>The optional entries of the query string, each set when its option is truthy.\<close>

definition str_entry :: "string \<Rightarrow> string option \<Rightarrow> (string \<times> scalar) list" where
  "str_entry name v = (if truthy v then [(name, JString (the v))] else [])"

definition files_optional_qs :: "files_GetManyAdditionalFields \<Rightarrow> (string \<times> scalar) list" where
  "files_optional_qs options =
     str_entry ''prefix'' (gm_prefix options) @
     str_entry ''sortBy'' (gm_sortBy options) @
     str_entry ''sortOrder'' (gm_sortOrder options) @
     (if gm_aggregate options = Some True then [(''aggregate'', JBoolean True)] else [])"

definition files_page_request ::
  "credentials \<Rightarrow> string \<Rightarrow> files_GetManyAdditionalFields \<Rightarrow> int \<Rightarrow> 'j request_options" where
  "files_page_request creds category options offset =
     (request GET (Some (getBaseUrl creds))
        (files_API_BASE_PATH @ ''/'' @ encodeURIComponent category))
       \<lparr>req_qs := Some
          ([(''limit'', JNumber (int MAX_LIMIT_PER_REQUEST)), (''offset'', JNumber offset)] @
           files_optional_qs options)\<rparr>"

definition files_limit_request ::
  "credentials \<Rightarrow> string \<Rightarrow> files_GetManyAdditionalFields \<Rightarrow> int \<Rightarrow> 'j request_options" where
  "files_limit_request creds category options limit =
     (request GET (Some (getBaseUrl creds))
        (files_API_BASE_PATH @ ''/'' @ encodeURIComponent category))
       \<lparr>req_qs := Some
          ([(''limit'', JNumber limit)] @
           (case gm_offset options of
              None \<Rightarrow> []
            | Some n \<Rightarrow> if n \<noteq> 0 then [(''offset'', JNumber n)] else []) @
           files_optional_qs options)\<rparr>"

text \<open>\<^verbatim>\<open>options.offset || 0\<close>\<close>

definition or_zero :: "int option \<Rightarrow> int" where
  "or_zero v = (case v of None \<Rightarrow> 0 | Some n \<Rightarrow> if n \<noteq> 0 then n else 0)"

definition executeFileGetMany ::
  "('j, 'a, 'w) transport \<Rightarrow> credentials \<Rightarrow> nat \<Rightarrow> string \<Rightarrow> bool \<Rightarrow> int \<Rightarrow>
   files_GetManyAdditionalFields \<Rightarrow> 'w \<Rightarrow> ((node_api_error + 'a list) \<times> 'w) option" where
  "executeFileGetMany http creds itemIndex category returnAll limit options w =
     (if returnAll then
        collectPages
          (\<lambda>offset. fetchItems http
             (\<lambda>error. handleApiError error itemIndex ''get many files'' File)
             (files_page_request creds category options offset))
          (\<lambda>offset. offset + int MAX_LIMIT_PER_REQUEST)
          (or_zero (gm_offset options))
          [] w
      else
        Some (fetchItems http
                (\<lambda>error. handleApiError error itemIndex ''get many files'' File)
                (files_limit_request creds category options limit) w))"

section \<open>The Convert node: request assemblers\<close>

definition REQUEST_TIMEOUT_MS :: nat where
  "REQUEST_TIMEOUT_MS = 600000"

record ConvertAdditionalFields =
  cv_response :: "string option"
  cv_models :: "string option"
  cv_webhookUrl :: "string option"
  cv_reference :: "string option"
  cv_jobExpiryInMinutes :: "int option"

text \<open>\<^verbatim>\<open>Array.prototype.join\<close> on strings.\<close>

fun join :: "string \<Rightarrow> string list \<Rightarrow> string" where
  "join sep [] = []"
| "join sep [x] = x"
| "join sep (x # y # ys) = x @ sep @ join sep (y # ys)"

text \<open>The JSON body of \<^verbatim>\<open>submit-url\<close>, as the list of its properties.\<close>

definition submitViaUrl_body ::
  "string \<Rightarrow> string list \<Rightarrow> string list \<Rightarrow> ConvertAdditionalFields \<Rightarrow> (string \<times> scalar) list" where
  "submitViaUrl_body sourceUrl languages outputs additionalFields =
     [(''sourceUrl'', JString sourceUrl),
      (''languages'', JString (join '','' languages)),
      (''outputs'', JString (join '','' outputs)),
      (''response'', JString (or_default (cv_response additionalFields) ''persisted'')),
      (''models'', JString (or_default (cv_models additionalFields) ''auto''))] @
     str_entry ''webhookUrl'' (cv_webhookUrl additionalFields) @
     str_entry ''reference'' (cv_reference additionalFields) @
     (case cv_jobExpiryInMinutes additionalFields of
        None \<Rightarrow> []
      | Some n \<Rightarrow> [(''jobExpiryInMinutes'', JNumber n)])"

definition submitViaUrl ::
  "credentials \<Rightarrow> string \<Rightarrow> nat \<Rightarrow> string list \<Rightarrow> string list \<Rightarrow> ConvertAdditionalFields \<Rightarrow>
   node_operation_error + (string \<times> scalar) list request_options" where
  "submitViaUrl creds sourceUrl itemIndex languages outputs additionalFields =
     (if sourceUrl = [] then
        Inl \<lparr>noe_message = ''Source URL is required'', noe_itemIndex = itemIndex\<rparr>
      else
        Inr ((request POST (Some (getBaseUrl creds)) ''/api/v1/convert/submit-url'')
          \<lparr>req_body := Some (JsonBody
              (submitViaUrl_body sourceUrl languages outputs additionalFields)),
           req_timeout := Some REQUEST_TIMEOUT_MS\<rparr>))"

text \<open>The form fields of \<^verbatim>\<open>submitViaBinary\<close>, in the order they are pushed.\<close>

definition formFields ::
  "string list \<Rightarrow> string list \<Rightarrow> ConvertAdditionalFields \<Rightarrow> (string \<times> string) list" where
  "formFields languages outputs additionalFields =
     [(''languages'', join '','' languages),
      (''outputs'', join '','' outputs),
      (''response'', or_default (cv_response additionalFields) ''persisted''),
      (''models'', or_default (cv_models additionalFields) ''auto'')] @
     (if truthy (cv_webhookUrl additionalFields)
      then [(''webhookUrl'', the (cv_webhookUrl additionalFields))] else []) @
     (if truthy (cv_reference additionalFields)
      then [(''reference'', the (cv_reference additionalFields))] else []) @
     (case cv_jobExpiryInMinutes additionalFields of
        None \<Rightarrow> []
      | Some n \<Rightarrow> [(''jobExpiryInMinutes'', toString n)])"

text \<open>\<^verbatim>\<open>for (const [fieldName, fieldValue] of formFields) formFieldsBody += ...\<close>\<close>

fun formFieldsBody :: "string \<Rightarrow> (string \<times> string) list \<Rightarrow> string \<Rightarrow> string" where
  "formFieldsBody boundary [] acc = acc"
| "formFieldsBody boundary ((fieldName, fieldValue) # rest) acc =
     formFieldsBody boundary rest (acc @ fieldPart boundary fieldName fieldValue)"

definition submitViaBinary_body ::
  "binary_data \<Rightarrow> string list \<Rightarrow> string list \<Rightarrow> ConvertAdditionalFields \<Rightarrow> int \<Rightarrow> string \<Rightarrow>
   multipart" where
  "submitViaBinary_body binaryData languages outputs additionalFields now rnd =
     (let fileName = or_default (bin_fileName binaryData) ''file'';
          mimeType = or_default (bin_mimeType binaryData) ''application/octet-stream'';
          boundary = formBoundary now rnd;
          fields = formFieldsBody boundary (formFields languages outputs additionalFields) [];
          closing = CRLF @ ''--'' @ boundary @ ''--'' @ CRLF
      in \<lparr>mp_body = concat [fields, filePreamble boundary fileName mimeType,
                              bin_buffer binaryData, closing],
          mp_boundary = boundary\<rparr>)"

definition submitViaBinary ::
  "credentials \<Rightarrow> binary_data \<Rightarrow> string list \<Rightarrow> string list \<Rightarrow> ConvertAdditionalFields \<Rightarrow>
   int \<Rightarrow> string \<Rightarrow> 'j request_options" where
  "submitViaBinary creds binaryData languages outputs additionalFields now rnd =
     (let mp = submitViaBinary_body binaryData languages outputs additionalFields now rnd;
          baseUrl = or_default (cred_baseUrl creds) DEFAULT_BASE_URL
      in (request POST None (baseUrl @ ''/api/v1/convert/submit-file''))
           \<lparr>req_headers := Some
              [(''Authorization'', ''Bearer '' @ cred_apiKey creds),
               (''Content-Type'', ''multipart/form-data; boundary='' @ mp_boundary mp)],
            req_body := Some (BufferBody (mp_body mp)),
            req_timeout := Some REQUEST_TIMEOUT_MS\<rparr>)"

definition executeConvert ::
  "credentials \<Rightarrow> upload_source \<Rightarrow> nat \<Rightarrow> InputSource \<Rightarrow> string list \<Rightarrow> string list \<Rightarrow>
   ConvertAdditionalFields \<Rightarrow> int \<Rightarrow> string \<Rightarrow>
   node_operation_error + (string \<times> scalar) list request_options" where
  "executeConvert creds src itemIndex inputSource languages outputs additionalFields now rnd =
     (if length languages = 0 then
        Inl \<lparr>noe_message = ''At least one language must be selected'',
             noe_itemIndex = itemIndex\<rparr>
      else if length outputs = 0 then
        Inl \<lparr>noe_message = ''At least one output format must be selected'',
             noe_itemIndex = itemIndex\<rparr>
      else if inputSource = Url then
        submitViaUrl creds (src_sourceUrl src) itemIndex languages outputs additionalFields
      else
        Inr (submitViaBinary creds (src_binary src) languages outputs additionalFields
               now rnd))"

definition executeGetResult ::
  "credentials \<Rightarrow> nat \<Rightarrow> string \<Rightarrow> node_operation_error + 'j request_options" where
  "executeGetResult creds itemIndex jobId =
     (if jobId = [] then
        Inl \<lparr>noe_message = ''Job ID is required'', noe_itemIndex = itemIndex\<rparr>
      else
        Inr (request GET (Some (getBaseUrl creds))
               (''/api/v1/convert/jobs/'' @ encodeURIComponent jobId)))"

section \<open>The Storage node: request assemblers\<close>

definition storage_API_BASE_PATH :: string where
  "storage_API_BASE_PATH = ''/api/v1/storage/json''"

record storage_CreateAdditionalFields =
  sc_key :: "string option"
  sc_expiresAt :: "string option"
  sc_expiresMs :: "int option"

text \<open>\<^verbatim>\<open>buildTtlQueryParams\<close>: both time-to-live fields are forwarded when set.\<close>

definition buildTtlQueryParams :: "string option \<Rightarrow> int option \<Rightarrow> (string \<times> scalar) list" where
  "buildTtlQueryParams expiresAt expiresMs =
     str_entry ''expiresAt'' expiresAt @
     (case expiresMs of
        None \<Rightarrow> []
      | Some n \<Rightarrow> if n \<noteq> 0 \<and> n > 0 then [(''expiresMs'', JNumber n)] else [])"

definition storage_executeCreate_url :: "string \<Rightarrow> string option \<Rightarrow> string" where
  "storage_executeCreate_url category key =
     (let url = storage_API_BASE_PATH @ ''/'' @ encodeURIComponent category
      in if truthy key then url @ ''/'' @ encodeURIComponent (the key) else url)"

definition storage_executeCreate ::
  "credentials \<Rightarrow> string \<Rightarrow> storage_CreateAdditionalFields \<Rightarrow> 'j \<Rightarrow> 'j request_options" where
  "storage_executeCreate creds category additionalFields data =
     (let qs = buildTtlQueryParams (sc_expiresAt additionalFields)
                 (sc_expiresMs additionalFields)
      in (request POST (Some (getBaseUrl creds))
            (storage_executeCreate_url category (sc_key additionalFields)))
           \<lparr>req_body := Some (JsonBody data), req_qs := qs_or_undefined qs\<rparr>)"

definition storage_record_url :: "string \<Rightarrow> string \<Rightarrow> string" where
  "storage_record_url category key =
     storage_API_BASE_PATH @ ''/'' @ encodeURIComponent category @ ''/'' @
     encodeURIComponent key"

definition storage_executeCreateOrReplace ::
  "credentials \<Rightarrow> string \<Rightarrow> string \<Rightarrow> string option \<Rightarrow> int option \<Rightarrow> 'j \<Rightarrow>
   'j request_options" where
  "storage_executeCreateOrReplace creds category key expiresAt expiresMs data =
     (let qs = buildTtlQueryParams expiresAt expiresMs
      in (request PUT (Some (getBaseUrl creds)) (storage_record_url category key))
           \<lparr>req_body := Some (JsonBody data), req_qs := qs_or_undefined qs\<rparr>)"

definition storage_executeUpdate ::
  "credentials \<Rightarrow> string \<Rightarrow> string \<Rightarrow> 'j \<Rightarrow> 'j request_options" where
  "storage_executeUpdate creds category key data =
     (request PATCH (Some (getBaseUrl creds)) (storage_record_url category key))
       \<lparr>req_body := Some (JsonBody data)\<rparr>"

definition storage_executeGet :: "credentials \<Rightarrow> string \<Rightarrow> string \<Rightarrow> 'j request_options" where
  "storage_executeGet creds category key =
     request GET (Some (getBaseUrl creds)) (storage_record_url category key)"

definition storage_executeDelete :: "credentials \<Rightarrow> string \<Rightarrow> string \<Rightarrow> 'j request_options" where
  "storage_executeDelete creds category key =
     request DELETE (Some (getBaseUrl creds)) (storage_record_url category key)"

definition storage_executeGetMetadata :: "credentials \<Rightarrow> string \<Rightarrow> string \<Rightarrow> 'j request_options" where
  "storage_executeGetMetadata creds category key =
     request GET (Some (getBaseUrl creds)) (storage_record_url category key @ ''/meta'')"

subsection \<open>Storage: \<^verbatim>\<open>executeRecordGetMany\<close> and \<^verbatim>\<open>executeCategoryGetMany\<close>\<close>

record storage_GetManyAdditionalFields =
  sg_sortBy :: "string option"
  sg_sortOrder :: "string option"

definition storage_optional_qs :: "storage_GetManyAdditionalFields \<Rightarrow> (string \<times> scalar) list" where
  "storage_optional_qs additionalFields =
     str_entry ''sortBy'' (sg_sortBy additionalFields) @
     str_entry ''sortOrder'' (sg_sortOrder additionalFields)"

definition storage_page_request ::
  "credentials \<Rightarrow> string \<Rightarrow> storage_GetManyAdditionalFields \<Rightarrow> int \<Rightarrow> 'j request_options" where
  "storage_page_request creds category additionalFields page =
     (request GET (Some (getBaseUrl creds))
        (storage_API_BASE_PATH @ ''/'' @ encodeURIComponent category))
       \<lparr>req_qs := Some
          ([(''page'', JNumber page), (''limit'', JNumber (int MAX_LIMIT_PER_REQUEST))] @
           storage_optional_qs additionalFields)\<rparr>"

definition storage_limit_request ::
  "credentials \<Rightarrow> string \<Rightarrow> storage_GetManyAdditionalFields \<Rightarrow> int \<Rightarrow> int \<Rightarrow> bool \<Rightarrow>
   'j request_options" where
  "storage_limit_request creds category additionalFields limit page aggregate =
     (request GET (Some (getBaseUrl creds))
        (storage_API_BASE_PATH @ ''/'' @ encodeURIComponent category))
       \<lparr>req_qs := Some
          ([(''page'', JNumber page), (''limit'', JNumber limit)] @
           storage_optional_qs additionalFields @
           (if aggregate then [(''aggregate'', JBoolean True)] else []))\<rparr>"

text \<open>The wrapper the return-all branch builds itself when Aggregate is set.\<close>

definition aggregated :: "string option \<Rightarrow> 'a list \<Rightarrow> 'a AggregatedResponse" where
  "aggregated category allItems =
     \<lparr>agg_category = category,
      agg_items = Some allItems,
      agg_totalCount = int (length allItems),
      agg_page = 1,
      agg_pageSize = int (length allItems),
      agg_totalPages = 1\<rparr>"

definition executeRecordGetMany ::
  "('j, 'a, 'w) transport \<Rightarrow> credentials \<Rightarrow> nat \<Rightarrow> string \<Rightarrow> bool \<Rightarrow> int \<Rightarrow> int \<Rightarrow> bool \<Rightarrow>
   storage_GetManyAdditionalFields \<Rightarrow> 'w \<Rightarrow>
   ((node_api_error + 'a list_response) \<times> 'w) option" where
  "executeRecordGetMany http creds itemIndex category returnAll limit page aggregate
     additionalFields w =
     (if returnAll then
        (case collectPages
                (\<lambda>page. fetchItems http
                   (\<lambda>error. handleApiError error itemIndex ''get many records'' Record)
                   (storage_page_request creds category additionalFields page))
                (\<lambda>page. page + 1) 1 [] w of
           None \<Rightarrow> None
         | Some (Inl error, w') \<Rightarrow> Some (Inl error, w')
         | Some (Inr allItems, w') \<Rightarrow>
             if aggregate
             then Some (Inr (ObjectResponse (aggregated (Some category) allItems)), w')
             else Some (Inr (ArrayResponse allItems), w'))
      else
        (case http (storage_limit_request creds category additionalFields limit page
                      aggregate) w of
           (Inl error, w') \<Rightarrow>
             Some (Inl (handleApiError error itemIndex ''get many records'' Record), w')
         | (Inr response, w') \<Rightarrow>
             if aggregate then Some (Inr response, w')
             else Some (Inr (ArrayResponse (response_items response)), w')))"

definition categories_page_request :: "credentials \<Rightarrow> int \<Rightarrow> 'j request_options" where
  "categories_page_request creds page =
     (request GET (Some (getBaseUrl creds)) storage_API_BASE_PATH)
       \<lparr>req_qs := Some
          [(''page'', JNumber page), (''limit'', JNumber (int MAX_LIMIT_PER_REQUEST))]\<rparr>"

definition categories_limit_request ::
  "credentials \<Rightarrow> int \<Rightarrow> int \<Rightarrow> bool \<Rightarrow> 'j request_options" where
  "categories_limit_request creds limit page aggregate =
     (request GET (Some (getBaseUrl creds)) storage_API_BASE_PATH)
       \<lparr>req_qs := Some
          ([(''page'', JNumber page), (''limit'', JNumber limit)] @
           (if aggregate then [(''aggregate'', JBoolean True)] else []))\<rparr>"

definition storage_executeCategoryGetMany ::
  "('j, 'a, 'w) transport \<Rightarrow> credentials \<Rightarrow> nat \<Rightarrow> bool \<Rightarrow> int \<Rightarrow> int \<Rightarrow> bool \<Rightarrow> 'w \<Rightarrow>
   ((node_api_error + 'a list_response) \<times> 'w) option" where
  "storage_executeCategoryGetMany http creds itemIndex returnAll limit page aggregate w =
     (if returnAll then
        (case collectPages
                (\<lambda>page. fetchItems http
                   (\<lambda>error. handleApiError error itemIndex ''get categories'' Record)
                   (categories_page_request creds page))
                (\<lambda>page. page + 1) 1 [] w of
           None \<Rightarrow> None
         | Some (Inl error, w') \<Rightarrow> Some (Inl error, w')
         | Some (Inr allItems, w') \<Rightarrow>
             if aggregate
             then Some (Inr (ObjectResponse (aggregated None allItems)), w')
             else Some (Inr (ArrayResponse allItems), w'))
      else
        (case http (categories_limit_request creds limit page aggregate) w of
           (Inl error, w') \<Rightarrow>
             Some (Inl (handleApiError error itemIndex ''get categories'' Record), w')
         | (Inr response, w') \<Rightarrow>
             if aggregate then Some (Inr response, w')
             else Some (Inr (ArrayResponse (response_items response)), w')))"

subsection \<open>Storage, the earlier revision of the node\<close>

text \<open>
  The second copy of the Storage node carries its own \<^verbatim>\<open>handleApiError\<close> (no entity
  kinds) and a record listing whose Aggregate option is part of the additional fields.
\<close>

definition legacy_apiMessage :: "http_error \<Rightarrow> string" where
  "legacy_apiMessage e =
     or_default (or_else (response_error_message e) (he_message e)) ''Unknown error''"

definition legacy_status_messages :: "http_error \<Rightarrow> string \<Rightarrow> message_pair" where
  "legacy_status_messages e operation =
     (if statusCode e = Some 400 then
        \<lparr>pair_message = ''Invalid request'', pair_description = legacy_apiMessage e\<rparr>
      else if statusCode e = Some 401 then
        \<lparr>pair_message = ''Invalid API key'',
         pair_description = ''Check your Ainoflow API credentials''\<rparr>
      else if statusCode e = Some 404 then
        \<lparr>pair_message = ''Record not found'',
         pair_description = ''The specified record does not exist''\<rparr>
      else if statusCode e = Some 409 then
        \<lparr>pair_message = ''Record already exists'', pair_description = legacy_apiMessage e\<rparr>
      else if statusCode e = Some 429 then
        \<lparr>pair_message = ''Storage limit reached'',
         pair_description = ''Storage API count limit reached for current scope''\<rparr>
      else if statusCode e = Some 500 \<or> statusCode e = Some 502 \<or> statusCode e = Some 503 then
        \<lparr>pair_message = ''Server error'',
         pair_description = ''Ainoflow API error: '' @ legacy_apiMessage e\<rparr>
      else
        \<lparr>pair_message = ''Failed to '' @ operation, pair_description = legacy_apiMessage e\<rparr>)"

definition legacy_handleApiError :: "http_error \<Rightarrow> nat \<Rightarrow> string \<Rightarrow> node_api_error" where
  "legacy_handleApiError e itemIndex operation =
     \<lparr>nae_cause = e,
      nae_message = pair_message (legacy_status_messages e operation),
      nae_description = pair_description (legacy_status_messages e operation),
      nae_httpCode = map_option toString (statusCode e),
      nae_itemIndex = itemIndex\<rparr>"

record legacy_GetManyAdditionalFields =
  lg_sortBy :: "string option"
  lg_sortOrder :: "string option"
  lg_aggregate :: "bool option"

definition legacy_optional_qs :: "legacy_GetManyAdditionalFields \<Rightarrow> (string \<times> scalar) list" where
  "legacy_optional_qs additionalFields =
     str_entry ''sortBy'' (lg_sortBy additionalFields) @
     str_entry ''sortOrder'' (lg_sortOrder additionalFields) @
     (if lg_aggregate additionalFields = Some True then [(''aggregate'', JBoolean True)]
      else [])"

definition legacy_page_request ::
  "string \<Rightarrow> legacy_GetManyAdditionalFields \<Rightarrow> int \<Rightarrow> int \<Rightarrow> 'j request_options" where
  "legacy_page_request category additionalFields page limit =
     (request GET None (storage_API_BASE_PATH @ ''/'' @ encodeURIComponent category))
       \<lparr>req_qs := Some
          ([(''page'', JNumber page), (''limit'', JNumber limit)] @
           legacy_optional_qs additionalFields)\<rparr>"

definition legacy_executeRecordGetMany ::
  "('j, 'a, 'w) transport \<Rightarrow> nat \<Rightarrow> string \<Rightarrow> bool \<Rightarrow> int \<Rightarrow> legacy_GetManyAdditionalFields \<Rightarrow>
   'w \<Rightarrow> ((node_api_error + 'a list) \<times> 'w) option" where
  "legacy_executeRecordGetMany http itemIndex category returnAll limit additionalFields w =
     (if returnAll then
        collectPages
          (\<lambda>page. fetchItems http
             (\<lambda>error. legacy_handleApiError error itemIndex ''get many records'')
             (legacy_page_request category additionalFields page
                (int MAX_LIMIT_PER_REQUEST)))
          (\<lambda>page. page + 1) 1 [] w
      else
        Some (fetchItems http
                (\<lambda>error. legacy_handleApiError error itemIndex ''get many records'')
                (legacy_page_request category additionalFields 1 limit) w))"

section \<open>The item loop of the three nodes\<close>

text \<open>What an operation handler can throw.\<close>

datatype thrown =
  ApiError node_api_error
| OperationError node_operation_error
| OtherError string

text \<open>\<^verbatim>\<open>(error as Error).message\<close>\<close>

definition thrown_message :: "thrown \<Rightarrow> string" where
  "thrown_message error =
     (case error of
        ApiError e \<Rightarrow> nae_message e
      | OperationError e \<Rightarrow> noe_message e
      | OtherError m \<Rightarrow> m)"

text \<open>
  The end of the \<^verbatim>\<open>catch\<close> block: a \<^verbatim>\<open>NodeApiError\<close> or \<^verbatim>\<open>NodeOperationError\<close> is thrown
  again as it is, anything else is wrapped in a \<^verbatim>\<open>NodeOperationError\<close> of the item.
\<close>

definition rethrow :: "thrown \<Rightarrow> nat \<Rightarrow> thrown" where
  "rethrow error itemIndex =
     (case error of
        ApiError e \<Rightarrow> ApiError e
      | OperationError e \<Rightarrow> OperationError e
      | OtherError m \<Rightarrow> OperationError \<lparr>noe_message = m, noe_itemIndex = itemIndex\<rparr>)"

text \<open>The \<^verbatim>\<open>json\<close> of an output item: a result, or the object \<^verbatim>\<open>{ error: message }\<close>.\<close>

datatype 'j item_json = Data 'j | ErrorObject string

record ('j, 'b) INodeExecutionData =
  json :: "'j item_json"
  binary :: "'b option"
  pairedItem :: nat

text \<open>
  \<^verbatim>\<open>for (let itemIndex = 0; itemIndex < items.length; itemIndex++) { try { ... } catch { ... } }\<close>.
  \<open>run\<close> is the dispatch to the operation handler, which acts on the remote service
  (the state \<open>w\<close>); \<open>emit\<close> is how the node pushes a result to \<^verbatim>\<open>returnData\<close>.
\<close>

function itemLoop ::
  "(nat \<Rightarrow> 'w \<Rightarrow> (thrown + 'r) \<times> 'w) \<Rightarrow> (nat \<Rightarrow> 'r \<Rightarrow> ('j, 'b) INodeExecutionData list) \<Rightarrow>
   bool \<Rightarrow> nat \<Rightarrow> nat \<Rightarrow> ('j, 'b) INodeExecutionData list \<Rightarrow> 'w \<Rightarrow>
   (thrown + ('j, 'b) INodeExecutionData list) \<times> 'w" where
  "itemLoop run emit continueOnFail n itemIndex returnData w =
     (if itemIndex < n then
        (case run itemIndex w of
           (Inr responseData, w') \<Rightarrow>
             itemLoop run emit continueOnFail n (itemIndex + 1)
               (returnData @ emit itemIndex responseData) w'
         | (Inl error, w') \<Rightarrow>
             if continueOnFail then
               itemLoop run emit continueOnFail n (itemIndex + 1)
                 (returnData @
                  [\<lparr>json = ErrorObject (thrown_message error), binary = None,
                    pairedItem = itemIndex\<rparr>]) w'
             else (Inl (rethrow error itemIndex), w'))
      else (Inr returnData, w))"
  by pat_completeness auto
termination
  by (relation "measure (\<lambda>(run, emit, c, n, itemIndex, returnData, w). n - itemIndex)") auto

declare itemLoop.simps [simp del]

subsection \<open>Files\<close>

text \<open>
  What a Files handler returns: an array (the listings), an object with a
  \<^verbatim>\<open>binary\<close> property (the download, an output item already), or another object.
\<close>

datatype ('j, 'b) files_response =
  ArrayData "'j list"
| ExecutionData "('j, 'b) INodeExecutionData"
| ObjectData 'j

definition files_emit :: "nat \<Rightarrow> ('j, 'b) files_response \<Rightarrow> ('j, 'b) INodeExecutionData list" where
  "files_emit itemIndex responseData =
     (case responseData of
        ArrayData xs \<Rightarrow> map (\<lambda>item. \<lparr>json = Data item, binary = None, pairedItem = itemIndex\<rparr>) xs
      | ExecutionData d \<Rightarrow> [d]
      | ObjectData j \<Rightarrow> [\<lparr>json = Data j, binary = None, pairedItem = itemIndex\<rparr>])"

text \<open>
  \<open>handlers operation\<close> stands for the handler functions of the node, one for each
  operation name of the \<^verbatim>\<open>switch\<close>.
\<close>

definition executeFileOperation ::
  "(string \<Rightarrow> nat \<Rightarrow> 'w \<Rightarrow> (thrown + 'r) \<times> 'w) \<Rightarrow> nat \<Rightarrow> string \<Rightarrow> 'w \<Rightarrow> (thrown + 'r) \<times> 'w" where
  "executeFileOperation handlers itemIndex operation w =
     (if operation \<in> set [''create'', ''createOrReplace'', ''download'', ''delete'',
                           ''getMetadata'', ''getUrl'', ''getMany'']
      then handlers operation itemIndex w
      else (Inl (OperationError
              \<lparr>noe_message = ''Unknown file operation: '' @ operation,
               noe_itemIndex = itemIndex\<rparr>), w))"

definition executeCategoryOperation ::
  "(nat \<Rightarrow> 'w \<Rightarrow> (thrown + 'r) \<times> 'w) \<Rightarrow> nat \<Rightarrow> string \<Rightarrow> 'w \<Rightarrow> (thrown + 'r) \<times> 'w" where
  "executeCategoryOperation categoryGetMany itemIndex operation w =
     (if operation = ''getMany'' then categoryGetMany itemIndex w
      else (Inl (OperationError
              \<lparr>noe_message = ''Unknown category operation: '' @ operation,
               noe_itemIndex = itemIndex\<rparr>), w))"

definition files_run ::
  "(string \<Rightarrow> nat \<Rightarrow> 'w \<Rightarrow> (thrown + 'r) \<times> 'w) \<Rightarrow> (nat \<Rightarrow> 'w \<Rightarrow> (thrown + 'r) \<times> 'w) \<Rightarrow>
   string \<Rightarrow> string \<Rightarrow> nat \<Rightarrow> 'w \<Rightarrow> (thrown + 'r) \<times> 'w" where
  "files_run handlers categoryGetMany resource operation itemIndex w =
     (if resource = ''file'' then executeFileOperation handlers itemIndex operation w
      else if resource = ''category'' then
        executeCategoryOperation categoryGetMany itemIndex operation w
      else (Inl (OperationError
              \<lparr>noe_message = ''Unknown resource: '' @ resource,
               noe_itemIndex = itemIndex\<rparr>), w))"

definition files_execute ::
  "(string \<Rightarrow> nat \<Rightarrow> 'w \<Rightarrow> (thrown + ('j, 'b) files_response) \<times> 'w) \<Rightarrow>
   (nat \<Rightarrow> 'w \<Rightarrow> (thrown + ('j, 'b) files_response) \<times> 'w) \<Rightarrow>
   bool \<Rightarrow> string \<Rightarrow> string \<Rightarrow> nat \<Rightarrow> 'w \<Rightarrow>
   (thrown + ('j, 'b) INodeExecutionData list) \<times> 'w" where
  "files_execute handlers categoryGetMany continueOnFail resource operation n w =
     itemLoop (files_run handlers categoryGetMany resource operation) files_emit
       continueOnFail n 0 [] w"

subsection \<open>Convert\<close>

definition convert_emit :: "nat \<Rightarrow> 'j \<Rightarrow> ('j, 'b) INodeExecutionData list" where
  "convert_emit itemIndex responseData =
     [\<lparr>json = Data responseData, binary = None, pairedItem = itemIndex\<rparr>]"

definition convert_run ::
  "(nat \<Rightarrow> 'w \<Rightarrow> (thrown + 'r) \<times> 'w) \<Rightarrow> (nat \<Rightarrow> 'w \<Rightarrow> (thrown + 'r) \<times> 'w) \<Rightarrow>
   string \<Rightarrow> nat \<Rightarrow> 'w \<Rightarrow> (thrown + 'r) \<times> 'w" where
  "convert_run convert getResult operation itemIndex w =
     (if operation = ''convert'' then convert itemIndex w
      else if operation = ''getResult'' then getResult itemIndex w
      else (Inl (OperationError
              \<lparr>noe_message = ''Unknown operation: '' @ operation,
               noe_itemIndex = itemIndex\<rparr>), w))"

definition convert_execute ::
  "(nat \<Rightarrow> 'w \<Rightarrow> (thrown + 'j) \<times> 'w) \<Rightarrow> (nat \<Rightarrow> 'w \<Rightarrow> (thrown + 'j) \<times> 'w) \<Rightarrow>
   bool \<Rightarrow> string \<Rightarrow> nat \<Rightarrow> 'w \<Rightarrow> (thrown + ('j, 'b) INodeExecutionData list) \<times> 'w" where
  "convert_execute convert getResult continueOnFail operation n w =
     itemLoop (convert_run convert getResult operation) convert_emit continueOnFail n 0 [] w"

subsection \<open>Storage\<close>

datatype 'j storage_response = ArrayResult "'j list" | ObjectResult 'j

definition storage_emit :: "nat \<Rightarrow> 'j storage_response \<Rightarrow> ('j, 'b) INodeExecutionData list" where
  "storage_emit itemIndex responseData =
     (case responseData of
        ArrayResult xs \<Rightarrow>
          map (\<lambda>item. \<lparr>json = Data item, binary = None, pairedItem = itemIndex\<rparr>) xs
      | ObjectResult j \<Rightarrow> [\<lparr>json = Data j, binary = None, pairedItem = itemIndex\<rparr>])"

definition executeRecordOperation ::
  "(string \<Rightarrow> nat \<Rightarrow> 'w \<Rightarrow> (thrown + 'r) \<times> 'w) \<Rightarrow> nat \<Rightarrow> string \<Rightarrow> 'w \<Rightarrow> (thrown + 'r) \<times> 'w" where
  "executeRecordOperation handlers itemIndex operation w =
     (if operation \<in> set [''create'', ''createOrReplace'', ''update'', ''get'', ''delete'',
                           ''getMetadata'', ''getMany'']
      then handlers operation itemIndex w
      else (Inl (OperationError
              \<lparr>noe_message = ''Unknown record operation: '' @ operation,
               noe_itemIndex = itemIndex\<rparr>), w))"

definition storage_run ::
  "(string \<Rightarrow> nat \<Rightarrow> 'w \<Rightarrow> (thrown + 'r) \<times> 'w) \<Rightarrow> (nat \<Rightarrow> 'w \<Rightarrow> (thrown + 'r) \<times> 'w) \<Rightarrow>
   string \<Rightarrow> string \<Rightarrow> nat \<Rightarrow> 'w \<Rightarrow> (thrown + 'r) \<times> 'w" where
  "storage_run handlers categoryGetMany resource operation itemIndex w =
     (if resource = ''record'' then executeRecordOperation handlers itemIndex operation w
      else if resource = ''category'' then
        executeCategoryOperation categoryGetMany itemIndex operation w
      else (Inl (OperationError
              \<lparr>noe_message = ''Unknown resource: '' @ resource,
               noe_itemIndex = itemIndex\<rparr>), w))"

definition storage_execute ::
  "(string \<Rightarrow> nat \<Rightarrow> 'w \<Rightarrow> (thrown + 'j storage_response) \<times> 'w) \<Rightarrow>
   (nat \<Rightarrow> 'w \<Rightarrow> (thrown + 'j storage_response) \<times> 'w) \<Rightarrow>
   bool \<Rightarrow> string \<Rightarrow> string \<Rightarrow> nat \<Rightarrow> 'w \<Rightarrow>
   (thrown + ('j, 'b) INodeExecutionData list) \<times> 'w" where
  "storage_execute handlers categoryGetMany continueOnFail resource operation n w =
     itemLoop (storage_run handlers categoryGetMany resource operation) storage_emit
       continueOnFail n 0 [] w"

section \<open>Properties of the error normalizer\<close>






section \<open>Properties of the item loop\<close>

lemma itemLoop_done:
  "\<not> itemIndex < n \<Longrightarrow> itemLoop run emit c n itemIndex rd w = (Inr rd, w)"
  by (simp add: itemLoop.simps)

lemma itemLoop_ok:
  "itemIndex < n \<Longrightarrow> run itemIndex w = (Inr r, w') \<Longrightarrow>
   itemLoop run emit c n itemIndex rd w =
   itemLoop run emit c n (Suc itemIndex) (rd @ emit itemIndex r) w'"
  by (subst itemLoop.simps) simp

lemma itemLoop_continue:
  "itemIndex < n \<Longrightarrow> run itemIndex w = (Inl e, w') \<Longrightarrow>
   itemLoop run emit True n itemIndex rd w =
   itemLoop run emit True n (Suc itemIndex)
     (rd @ [\<lparr>json = ErrorObject (thrown_message e), binary = None, pairedItem = itemIndex\<rparr>]) w'"
  by (subst itemLoop.simps) simp

lemma itemLoop_abort:
  "itemIndex < n \<Longrightarrow> run itemIndex w = (Inl e, w') \<Longrightarrow>
   itemLoop run emit False n itemIndex rd w = (Inl (rethrow e itemIndex), w')"
  by (subst itemLoop.simps) simp

lemma itemLoop_three_continue:
  assumes "run 0 w0 = (Inr r0, w1)" and "run 1 w1 = (Inl e, w2)" and "run 2 w2 = (Inr r2, w3)"
  shows "itemLoop run emit True 3 0 [] w0 =
     (Inr (emit 0 r0 @
           [\<lparr>json = ErrorObject (thrown_message e), binary = None, pairedItem = 1\<rparr>] @
           emit 2 r2), w3)"
proof -
  have "itemLoop run emit True 3 0 [] w0 = itemLoop run emit True 3 1 (emit 0 r0) w1"
    using itemLoop_ok [of 0 3 run w0 r0 w1 emit True "[]"] assms(1) by simp
  also have "\<dots> = itemLoop run emit True 3 2
      (emit 0 r0 @ [\<lparr>json = ErrorObject (thrown_message e), binary = None, pairedItem = 1\<rparr>]) w2"
    using itemLoop_continue [of 1 3 run w1 e w2 emit "emit 0 r0"] assms(2)
    by (simp add: numeral_2_eq_2)
  also have "\<dots> = itemLoop run emit True 3 3
      (emit 0 r0 @ [\<lparr>json = ErrorObject (thrown_message e), binary = None, pairedItem = 1\<rparr>]
       @ emit 2 r2) w3"
    using itemLoop_ok [of 2 3 run w2 r2 w3 emit True] assms(3)
    by (simp add: numeral_3_eq_3 numeral_2_eq_2)
  finally show ?thesis
    by (simp add: itemLoop_done)
qed

lemma itemLoop_three_abort:
  assumes "run 0 w0 = (Inr r0, w1)" and "run 1 w1 = (Inl e, w2)"
  shows "itemLoop run emit False 3 0 [] w0 = (Inl (rethrow e 1), w2)"
proof -
  have "itemLoop run emit False 3 0 [] w0 = itemLoop run emit False 3 1 (emit 0 r0) w1"
    using itemLoop_ok [of 0 3 run w0 r0 w1 emit False "[]"] assms(1) by simp
  also have "\<dots> = (Inl (rethrow e 1), w2)"
    using itemLoop_abort [of 1 3 run w1 e w2 emit "emit 0 r0"] assms(2) by simp
  finally show ?thesis .
qed

text \<open>
  Claim C6. Three input items, the second of which (index 1) throws while the others
  return a single object. With continue-on-fail the output of each node has exactly three
  entries in item order, the second the error object of the thrown error, paired with
  item 1, and the third item is processed (the final state is the one its handler
  leaves). Without continue-on-fail the loop ends at the second item with the error
  thrown again, in the state that item left: the third handler is not run and no output
  is returned.
\<close>

theorem execute_three_items:
  "(files_run fh fc resource operation 0 w0 = (Inr (ObjectData a), w1) \<and>
    files_run fh fc resource operation 1 w1 = (Inl e, w2) \<and>
    files_run fh fc resource operation 2 w2 = (Inr (ObjectData c), w3) \<longrightarrow>
      files_execute fh fc True resource operation 3 w0 =
        (Inr [\<lparr>json = Data a, binary = None, pairedItem = 0\<rparr>,
              \<lparr>json = ErrorObject (thrown_message e), binary = None, pairedItem = 1\<rparr>,
              \<lparr>json = Data c, binary = None, pairedItem = 2\<rparr>], w3) \<and>
      files_execute fh fc False resource operation 3 w0 = (Inl (rethrow e 1), w2)) \<and>
   (convert_run cv gr operation 0 w0 = (Inr a', w1) \<and>
    convert_run cv gr operation 1 w1 = (Inl e, w2) \<and>
    convert_run cv gr operation 2 w2 = (Inr c', w3) \<longrightarrow>
      convert_execute cv gr True operation 3 w0 =
        (Inr [\<lparr>json = Data a', binary = (None :: 'cb option), pairedItem = 0\<rparr>,
              \<lparr>json = ErrorObject (thrown_message e), binary = None, pairedItem = 1\<rparr>,
              \<lparr>json = Data c', binary = None, pairedItem = 2\<rparr>], w3) \<and>
      convert_execute cv gr False operation 3 w0 =
        (Inl (rethrow e 1) :: thrown + ('cj, 'cb) INodeExecutionData list, w2)) \<and>
   (storage_run sh sc resource operation 0 w0 = (Inr (ObjectResult a''), w1) \<and>
    storage_run sh sc resource operation 1 w1 = (Inl e, w2) \<and>
    storage_run sh sc resource operation 2 w2 = (Inr (ObjectResult c''), w3) \<longrightarrow>
      storage_execute sh sc True resource operation 3 w0 =
        (Inr [\<lparr>json = Data a'', binary = (None :: 'sb option), pairedItem = 0\<rparr>,
              \<lparr>json = ErrorObject (thrown_message e), binary = None, pairedItem = 1\<rparr>,
              \<lparr>json = Data c'', binary = None, pairedItem = 2\<rparr>], w3) \<and>
      storage_execute sh sc False resource operation 3 w0 =
        (Inl (rethrow e 1) :: thrown + ('sj, 'sb) INodeExecutionData list, w2))"
proof (intro conjI impI)
  assume h: "files_run fh fc resource operation 0 w0 = (Inr (ObjectData a), w1) \<and>
    files_run fh fc resource operation 1 w1 = (Inl e, w2) \<and>
    files_run fh fc resource operation 2 w2 = (Inr (ObjectData c), w3)"
  show "files_execute fh fc True resource operation 3 w0 =
        (Inr [\<lparr>json = Data a, binary = None, pairedItem = 0\<rparr>,
              \<lparr>json = ErrorObject (thrown_message e), binary = None, pairedItem = 1\<rparr>,
              \<lparr>json = Data c, binary = None, pairedItem = 2\<rparr>], w3)"
    using h itemLoop_three_continue [of "files_run fh fc resource operation" w0 "ObjectData a"
        w1 e w2 "ObjectData c" w3 files_emit]
    by (simp add: files_execute_def files_emit_def)
  show "files_execute fh fc False resource operation 3 w0 = (Inl (rethrow e 1), w2)"
    using h itemLoop_three_abort [of "files_run fh fc resource operation" w0 "ObjectData a"
        w1 e w2 files_emit]
    by (simp add: files_execute_def)
next
  assume h: "convert_run cv gr operation 0 w0 = (Inr a', w1) \<and>
    convert_run cv gr operation 1 w1 = (Inl e, w2) \<and>
    convert_run cv gr operation 2 w2 = (Inr c', w3)"
  show "convert_execute cv gr True operation 3 w0 =
        (Inr [\<lparr>json = Data a', binary = (None :: 'cb option), pairedItem = 0\<rparr>,
              \<lparr>json = ErrorObject (thrown_message e), binary = None, pairedItem = 1\<rparr>,
              \<lparr>json = Data c', binary = None, pairedItem = 2\<rparr>], w3)"
    using h itemLoop_three_continue [of "convert_run cv gr operation" w0 a' w1 e w2 c' w3
        convert_emit]
    by (simp add: convert_execute_def convert_emit_def)
  show "convert_execute cv gr False operation 3 w0 =
        (Inl (rethrow e 1) :: thrown + ('cj, 'cb) INodeExecutionData list, w2)"
    using h itemLoop_three_abort [of "convert_run cv gr operation" w0 a' w1 e w2 convert_emit]
    by (simp add: convert_execute_def)
next
  assume h: "storage_run sh sc resource operation 0 w0 = (Inr (ObjectResult a''), w1) \<and>
    storage_run sh sc resource operation 1 w1 = (Inl e, w2) \<and>
    storage_run sh sc resource operation 2 w2 = (Inr (ObjectResult c''), w3)"
  show "storage_execute sh sc True resource operation 3 w0 =
        (Inr [\<lparr>json = Data a'', binary = (None :: 'sb option), pairedItem = 0\<rparr>,
              \<lparr>json = ErrorObject (thrown_message e), binary = None, pairedItem = 1\<rparr>,
              \<lparr>json = Data c'', binary = None, pairedItem = 2\<rparr>], w3)"
    using h itemLoop_three_continue [of "storage_run sh sc resource operation" w0
        "ObjectResult a''" w1 e w2 "ObjectResult c''" w3 storage_emit]
    by (simp add: storage_execute_def storage_emit_def)
  show "storage_execute sh sc False resource operation 3 w0 =
        (Inl (rethrow e 1) :: thrown + ('sj, 'sb) INodeExecutionData list, w2)"
    using h itemLoop_three_abort [of "storage_run sh sc resource operation" w0
        "ObjectResult a''" w1 e w2 storage_emit]
    by (simp add: storage_execute_def)
qed

text \<open>
  The witness: handlers that append the index of their item to a log (the state) and
  return it, except at index 1, where they throw. With continue-on-fail the log ends as
  \<open>[0, 1, 2]\<close>, without it as \<open>[0, 1]\<close>.
\<close>

theorem execute_three_items_witness:
  "files_execute
     (\<lambda>operation i log. (if i = 1 then Inl (OtherError ''boom'') else Inr (ObjectData i), log @ [i]))
     (\<lambda>i log. (Inr (ArrayData []), log))
     True ''file'' ''getMetadata'' 3 ([] :: nat list) =
     (Inr [\<lparr>json = Data 0, binary = (None :: unit option), pairedItem = 0\<rparr>,
           \<lparr>json = ErrorObject ''boom'', binary = None, pairedItem = 1\<rparr>,
           \<lparr>json = Data 2, binary = None, pairedItem = 2\<rparr>], [0, 1, 2]) \<and>
   files_execute
     (\<lambda>operation i log. (if i = 1 then Inl (OtherError ''boom'') else Inr (ObjectData i), log @ [i]))
     (\<lambda>i log. (Inr (ArrayData []), log))
     False ''file'' ''getMetadata'' 3 ([] :: nat list) =
     (Inl (OperationError \<lparr>noe_message = ''boom'', noe_itemIndex = 1\<rparr>) ::
        thrown + (nat, unit) INodeExecutionData list, [0, 1]) \<and>
   convert_execute
     (\<lambda>i log. (Inr i, log @ [i]))
     (\<lambda>i log. (if i = 1 then Inl (OtherError ''boom'') else Inr i, log @ [i]))
     True ''getResult'' 3 ([] :: nat list) =
     (Inr [\<lparr>json = Data 0, binary = (None :: unit option), pairedItem = 0\<rparr>,
           \<lparr>json = ErrorObject ''boom'', binary = None, pairedItem = 1\<rparr>,
           \<lparr>json = Data 2, binary = None, pairedItem = 2\<rparr>], [0, 1, 2]) \<and>
   convert_execute
     (\<lambda>i log. (Inr i, log @ [i]))
     (\<lambda>i log. (if i = 1 then Inl (OtherError ''boom'') else Inr i, log @ [i]))
     False ''getResult'' 3 ([] :: nat list) =
     (Inl (OperationError \<lparr>noe_message = ''boom'', noe_itemIndex = 1\<rparr>) ::
        thrown + (nat, unit) INodeExecutionData list, [0, 1]) \<and>
   storage_execute
     (\<lambda>operation i log.
        (if i = 1 then Inl (OperationError \<lparr>noe_message = ''Invalid JSON in data field'',
                                             noe_itemIndex = i\<rparr>)
         else Inr (ObjectResult i), log @ [i]))
     (\<lambda>i log. (Inr (ArrayResult []), log))
     True ''record'' ''create'' 3 ([] :: nat list) =
     (Inr [\<lparr>json = Data 0, binary = (None :: unit option), pairedItem = 0\<rparr>,
           \<lparr>json = ErrorObject ''Invalid JSON in data field'', binary = None, pairedItem = 1\<rparr>,
           \<lparr>json = Data 2, binary = None, pairedItem = 2\<rparr>], [0, 1, 2]) \<and>
   storage_execute
     (\<lambda>operation i log.
        (if i = 1 then Inl (OperationError \<lparr>noe_message = ''Invalid JSON in data field'',
                                             noe_itemIndex = i\<rparr>)
         else Inr (ObjectResult i), log @ [i]))
     (\<lambda>i log. (Inr (ArrayResult []), log))
     False ''record'' ''create'' 3 ([] :: nat list) =
     (Inl (OperationError \<lparr>noe_message = ''Invalid JSON in data field'', noe_itemIndex = 1\<rparr>) ::
        thrown + (nat, unit) INodeExecutionData list, [0, 1])"
proof -
  let ?fh = "\<lambda>(operation :: string) (i :: nat) (log :: nat list).
      (if i = 1 then Inl (OtherError ''boom'') else Inr (ObjectData i) ::
         thrown + (nat, unit) files_response, log @ [i])"
  let ?fc = "\<lambda>(i :: nat) (log :: nat list).
      (Inr (ArrayData []) :: thrown + (nat, unit) files_response, log)"
  let ?cv = "\<lambda>(i :: nat) (log :: nat list). (Inr i :: thrown + nat, log @ [i])"
  let ?gr = "\<lambda>(i :: nat) (log :: nat list).
      (if i = 1 then Inl (OtherError ''boom'') else Inr i :: thrown + nat, log @ [i])"
  let ?sh = "\<lambda>(operation :: string) (i :: nat) (log :: nat list).
      (if i = 1 then Inl (OperationError \<lparr>noe_message = ''Invalid JSON in data field'',
                                           noe_itemIndex = i\<rparr>)
       else Inr (ObjectResult i) :: thrown + nat storage_response, log @ [i])"
  let ?sc = "\<lambda>(i :: nat) (log :: nat list).
      (Inr (ArrayResult []) :: thrown + nat storage_response, log)"
  have f: "files_run ?fh ?fc ''file'' ''getMetadata'' 0 [] = (Inr (ObjectData 0), [0]) \<and>
      files_run ?fh ?fc ''file'' ''getMetadata'' 1 [0] = (Inl (OtherError ''boom''), [0, 1]) \<and>
      files_run ?fh ?fc ''file'' ''getMetadata'' 2 [0, 1] = (Inr (ObjectData 2), [0, 1, 2])"
    by (simp add: files_run_def executeFileOperation_def)
  have c: "convert_run ?cv ?gr ''getResult'' 0 [] = (Inr 0, [0]) \<and>
      convert_run ?cv ?gr ''getResult'' 1 [0] = (Inl (OtherError ''boom''), [0, 1]) \<and>
      convert_run ?cv ?gr ''getResult'' 2 [0, 1] = (Inr 2, [0, 1, 2])"
    by (simp add: convert_run_def)
  have s: "storage_run ?sh ?sc ''record'' ''create'' 0 [] = (Inr (ObjectResult 0), [0]) \<and>
      storage_run ?sh ?sc ''record'' ''create'' 1 [0] =
        (Inl (OperationError \<lparr>noe_message = ''Invalid JSON in data field'',
                               noe_itemIndex = 1\<rparr>), [0, 1]) \<and>
      storage_run ?sh ?sc ''record'' ''create'' 2 [0, 1] = (Inr (ObjectResult 2), [0, 1, 2])"
    by (simp add: storage_run_def executeRecordOperation_def)
  note t1 = execute_three_items [THEN conjunct1, rule_format, OF f]
  note t2 = execute_three_items [where ?'cb = unit, THEN conjunct2, THEN conjunct1,
      rule_format, OF c]
  note t3 = execute_three_items [where ?'sb = unit, THEN conjunct2, THEN conjunct2,
      rule_format, OF s]
  show ?thesis
    using t1 t2 t3
    by (simp add: thrown_message_def rethrow_def)
qed

section \<open>Properties of the return-all collectors\<close>

lemma collectPages_full:
  "fetchPage cursor w = (Inr items, w') \<Longrightarrow> length items = MAX_LIMIT_PER_REQUEST \<Longrightarrow>
   collectPages fetchPage advance cursor allItems w =
   collectPages fetchPage advance (advance cursor) (allItems @ items) w'"
  by (subst collectPages.simps) simp

lemma collectPages_short:
  "fetchPage cursor w = (Inr items, w') \<Longrightarrow> length items \<noteq> MAX_LIMIT_PER_REQUEST \<Longrightarrow>
   collectPages fetchPage advance cursor allItems w = Some (Inr (allItems @ items), w')"
  by (subst collectPages.simps) simp

lemma collectPages_error:
  "fetchPage cursor w = (Inl error, w') \<Longrightarrow>
   collectPages fetchPage advance cursor allItems w = Some (Inl error, w')"
  by (subst collectPages.simps) simp

lemma fetchItems_pageSource_Cons:
  "fetchItems pageSource onError r (p # ps, log) = (Inr p, (ps, log @ [r]))"
  by (simp add: fetchItems_def pageSource_def response_items_def)

lemma fetchItems_pageSource_Nil:
  "fetchItems pageSource onError r ([], log) = (Inr [], ([], log @ [r]))"
  by (simp add: fetchItems_def pageSource_def response_items_def)

text \<open>The requests of the first \<open>n\<close> cursor positions.\<close>

lemma cursors_Suc:
  "map (\<lambda>k. mk ((advance ^^ k) cursor)) [0..<Suc n] =
   mk cursor # map (\<lambda>k. mk ((advance ^^ k) (advance cursor))) [0..<n]"
proof -
  have "[0..<Suc n] = 0 # map Suc [0..<n]"
    by (simp add: upt_conv_Cons map_Suc_upt del: upt_Suc)
  then show ?thesis
    by (simp add: funpow_swap1 comp_def del: upt_Suc)
qed

lemma collectPages_pageSource_short:
  assumes "\<forall>p\<in>set fulls. length p = MAX_LIMIT_PER_REQUEST"
    and "length short \<noteq> MAX_LIMIT_PER_REQUEST"
  shows "collectPages (\<lambda>c. fetchItems pageSource onError (mk c)) advance cursor acc
           (fulls @ short # rest, log) =
         Some (Inr (acc @ concat fulls @ short),
               (rest, log @ map (\<lambda>k. mk ((advance ^^ k) cursor)) [0..<Suc (length fulls)]))"
  using assms
proof (induction fulls arbitrary: cursor acc log)
  case Nil
  then show ?case
    using collectPages_short
      [of "\<lambda>c. fetchItems pageSource onError (mk c)" cursor "(short # rest, log)" short
        "(rest, log @ [mk cursor])" advance acc]
    by (simp add: fetchItems_pageSource_Cons)
next
  case (Cons p fulls)
  have step: "collectPages (\<lambda>c. fetchItems pageSource onError (mk c)) advance cursor acc
           ((p # fulls) @ short # rest, log) =
        collectPages (\<lambda>c. fetchItems pageSource onError (mk c)) advance (advance cursor)
           (acc @ p) (fulls @ short # rest, log @ [mk cursor])"
    using collectPages_full
      [of "\<lambda>c. fetchItems pageSource onError (mk c)" cursor
        "((p # fulls) @ short # rest, log)" p "(fulls @ short # rest, log @ [mk cursor])"
        advance acc] Cons.prems
    by (simp add: fetchItems_pageSource_Cons)
  have cur: "map (\<lambda>k. mk ((advance ^^ k) cursor)) [0..<Suc (Suc (length fulls))] =
      mk cursor # map (\<lambda>k. mk ((advance ^^ k) (advance cursor))) [0..<Suc (length fulls)]"
    by (rule cursors_Suc)
  show ?case
    using Cons.IH [of "advance cursor" "acc @ p" "log @ [mk cursor]"] Cons.prems step cur
    by simp
qed

lemma collectPages_pageSource_all_full:
  assumes "\<forall>p\<in>set fulls. length p = MAX_LIMIT_PER_REQUEST"
  shows "collectPages (\<lambda>c. fetchItems pageSource onError (mk c)) advance cursor acc
           (fulls, log) =
         Some (Inr (acc @ concat fulls),
               ([], log @ map (\<lambda>k. mk ((advance ^^ k) cursor)) [0..<Suc (length fulls)]))"
  using assms
proof (induction fulls arbitrary: cursor acc log)
  case Nil
  then show ?case
    using collectPages_short
      [of "\<lambda>c. fetchItems pageSource onError (mk c)" cursor "([], log)" "[]"
        "([], log @ [mk cursor])" advance acc]
    by (simp add: fetchItems_pageSource_Nil MAX_LIMIT_PER_REQUEST_def)
next
  case (Cons p fulls)
  have step: "collectPages (\<lambda>c. fetchItems pageSource onError (mk c)) advance cursor acc
           (p # fulls, log) =
        collectPages (\<lambda>c. fetchItems pageSource onError (mk c)) advance (advance cursor)
           (acc @ p) (fulls, log @ [mk cursor])"
    using collectPages_full
      [of "\<lambda>c. fetchItems pageSource onError (mk c)" cursor
        "(p # fulls, log)" p "(fulls, log @ [mk cursor])"
        advance acc] Cons.prems
    by (simp add: fetchItems_pageSource_Cons)
  have cur: "map (\<lambda>k. mk ((advance ^^ k) cursor)) [0..<Suc (Suc (length fulls))] =
      mk cursor # map (\<lambda>k. mk ((advance ^^ k) (advance cursor))) [0..<Suc (length fulls)]"
    by (rule cursors_Suc)
  show ?case
    using Cons.IH [of "advance cursor" "acc @ p" "log @ [mk cursor]"] Cons.prems step cur
    by simp
qed

lemma funpow_add_const: "((\<lambda>c::int. c + d) ^^ k) c0 = c0 + int k * d"
proof (induction k)
  case 0
  then show ?case by simp
next
  case (Suc k)
  have "int (Suc k) * d = int k * d + d"
    by (simp add: distrib_right)
  with Suc show ?case by simp
qed

lemma map_length_three:
  "map length ps = [a, b, c] \<Longrightarrow> \<exists>p1 p2 p3. ps = [p1, p2, p3] \<and> length p1 = a \<and> length p2 = b \<and> length p3 = c"
  by (auto simp: map_eq_Cons_conv)

lemma files_collect_short:
  assumes "\<forall>p\<in>set fulls. length p = 1000" and "length short \<noteq> 1000"
  shows "executeFileGetMany pageSource creds i category True limit options (fulls @ [short], []) =
     Some (Inr (concat fulls @ short),
           ([], map (\<lambda>k. files_page_request creds category options
                        (or_zero (gm_offset options) + int k * 1000))
                  [0..<Suc (length fulls)]))"
  using collectPages_pageSource_short [of fulls short
      "\<lambda>error. handleApiError error i ''get many files'' File"
      "files_page_request creds category options"
      "\<lambda>offset. offset + int MAX_LIMIT_PER_REQUEST"
      "or_zero (gm_offset options)" "[]" "[]" "[]"] assms
  by (simp add: executeFileGetMany_def funpow_add_const MAX_LIMIT_PER_REQUEST_def del: upt_Suc)

lemma files_collect_all_full:
  assumes "\<forall>p\<in>set fulls. length p = 1000"
  shows "executeFileGetMany pageSource creds i category True limit options (fulls, []) =
     Some (Inr (concat fulls),
           ([], map (\<lambda>k. files_page_request creds category options
                        (or_zero (gm_offset options) + int k * 1000))
                  [0..<Suc (length fulls)]))"
  using collectPages_pageSource_all_full [of fulls
      "\<lambda>error. handleApiError error i ''get many files'' File"
      "files_page_request creds category options"
      "\<lambda>offset. offset + int MAX_LIMIT_PER_REQUEST"
      "or_zero (gm_offset options)" "[]" "[]"] assms
  by (simp add: executeFileGetMany_def funpow_add_const MAX_LIMIT_PER_REQUEST_def del: upt_Suc)

lemma records_loop_result:
  "collectPages
     (\<lambda>page. fetchItems http
        (\<lambda>error. handleApiError error i ''get many records'' Record)
        (storage_page_request creds category additionalFields page))
     (\<lambda>page. page + 1) 1 [] w = Some (Inr allItems, w') \<Longrightarrow>
   executeRecordGetMany http creds i category True limit page aggregate additionalFields w =
   Some (Inr (if aggregate then ObjectResponse (aggregated (Some category) allItems)
              else ArrayResponse allItems), w')"
  by (simp add: executeRecordGetMany_def)

lemma records_collect_short:
  assumes "\<forall>p\<in>set fulls. length p = 1000" and "length short \<noteq> 1000"
  shows "executeRecordGetMany pageSource creds i category True limit page False additionalFields
           (fulls @ [short], []) =
     Some (Inr (ArrayResponse (concat fulls @ short)),
           ([], map (\<lambda>k. storage_page_request creds category additionalFields (1 + int k))
                  [0..<Suc (length fulls)]))"
  apply (rule trans [OF records_loop_result])
   apply (rule collectPages_pageSource_short)
  using assms
    apply (simp_all add: funpow_add_const MAX_LIMIT_PER_REQUEST_def del: upt_Suc)
  done

lemma records_collect_all_full:
  assumes "\<forall>p\<in>set fulls. length p = 1000"
  shows "executeRecordGetMany pageSource creds i category True limit page False additionalFields
           (fulls, []) =
     Some (Inr (ArrayResponse (concat fulls)),
           ([], map (\<lambda>k. storage_page_request creds category additionalFields (1 + int k))
                  [0..<Suc (length fulls)]))"
  apply (rule trans [OF records_loop_result])
   apply (rule collectPages_pageSource_all_full)
  using assms
    apply (simp_all add: funpow_add_const MAX_LIMIT_PER_REQUEST_def del: upt_Suc)
  done

lemma legacy_collect_short:
  assumes "\<forall>p\<in>set fulls. length p = 1000" and "length short \<noteq> 1000"
  shows "legacy_executeRecordGetMany pageSource i category True limit additionalFields
           (fulls @ [short], []) =
     Some (Inr (concat fulls @ short),
           ([], map (\<lambda>k. legacy_page_request category additionalFields (1 + int k) 1000)
                  [0..<Suc (length fulls)]))"
  using collectPages_pageSource_short [of fulls short
      "\<lambda>error. legacy_handleApiError error i ''get many records''"
      "\<lambda>page. legacy_page_request category additionalFields page (int MAX_LIMIT_PER_REQUEST)"
      "\<lambda>page. page + 1" 1 "[]" "[]" "[]"] assms
  by (simp add: legacy_executeRecordGetMany_def funpow_add_const MAX_LIMIT_PER_REQUEST_def
      del: upt_Suc)

lemma legacy_collect_all_full:
  assumes "\<forall>p\<in>set fulls. length p = 1000"
  shows "legacy_executeRecordGetMany pageSource i category True limit additionalFields
           (fulls, []) =
     Some (Inr (concat fulls),
           ([], map (\<lambda>k. legacy_page_request category additionalFields (1 + int k) 1000)
                  [0..<Suc (length fulls)]))"
  using collectPages_pageSource_all_full [of fulls
      "\<lambda>error. legacy_handleApiError error i ''get many records''"
      "\<lambda>page. legacy_page_request category additionalFields page (int MAX_LIMIT_PER_REQUEST)"
      "\<lambda>page. page + 1" 1 "[]" "[]"] assms
  by (simp add: legacy_executeRecordGetMany_def funpow_add_const MAX_LIMIT_PER_REQUEST_def
      del: upt_Suc)

text \<open>
  Claim C2. The return-all collectors fetch one page after the other: after a page whose
  item count equals the ceiling of 1000 the loop continues at the next cursor position
  with the items appended, and at the first page of another size it stops and returns
  the items appended so far (for every page-fetching function). On the page source that
  serves a list of pages, the collectors of Files, Storage and the earlier Storage
  revision issue one request for each full page and one more, in cursor order, and return
  the concatenation of the pages. In particular, pages of sizes 1000, 1000, 37 take
  exactly 3 requests and give 2037 items, and three full pages take 4 requests, the
  fourth answered with no items, and give 3000 items.
\<close>

theorem returnAll_collects_pages:
  assumes full: "\<forall>p\<in>set fulls. length p = 1000" and short: "length short \<noteq> 1000"
    and three: "map length ps3 = [1000, 1000, 37]"
    and four: "map length ps4 = [1000, 1000, 1000]"
  shows
   "(fetchPage cursor w = (Inr items, w') \<and> length items = 1000 \<longrightarrow>
       collectPages fetchPage advance cursor allItems w =
       collectPages fetchPage advance (advance cursor) (allItems @ items) w') \<and>
    (fetchPage cursor w = (Inr items, w') \<and> length items \<noteq> 1000 \<longrightarrow>
       collectPages fetchPage advance cursor allItems w = Some (Inr (allItems @ items), w')) \<and>
    executeFileGetMany pageSource creds i category True limit options (fulls @ [short], []) =
      Some (Inr (concat fulls @ short),
            ([], map (\<lambda>k. files_page_request creds category options
                         (or_zero (gm_offset options) + int k * 1000))
                   [0..<Suc (length fulls)])) \<and>
    executeFileGetMany pageSource creds i category True limit options (fulls, []) =
      Some (Inr (concat fulls),
            ([], map (\<lambda>k. files_page_request creds category options
                         (or_zero (gm_offset options) + int k * 1000))
                   [0..<Suc (length fulls)])) \<and>
    executeFileGetMany pageSource creds i category True limit options (ps3, []) =
      Some (Inr (concat ps3),
            ([], [files_page_request creds category options (or_zero (gm_offset options)),
                  files_page_request creds category options (or_zero (gm_offset options) + 1000),
                  files_page_request creds category options (or_zero (gm_offset options) + 2000)])) \<and>
    length (concat ps3) = 2037 \<and>
    executeFileGetMany pageSource creds i category True limit options (ps4, []) =
      Some (Inr (concat ps4),
            ([], [files_page_request creds category options (or_zero (gm_offset options)),
                  files_page_request creds category options (or_zero (gm_offset options) + 1000),
                  files_page_request creds category options (or_zero (gm_offset options) + 2000),
                  files_page_request creds category options (or_zero (gm_offset options) + 3000)])) \<and>
    length (concat ps4) = 3000 \<and>
    executeRecordGetMany pageSource creds i category True limit page False additionalFields
        (fulls @ [short], []) =
      Some (Inr (ArrayResponse (concat fulls @ short)),
            ([], map (\<lambda>k. storage_page_request creds category additionalFields (1 + int k))
                   [0..<Suc (length fulls)])) \<and>
    executeRecordGetMany pageSource creds i category True limit page False additionalFields
        (fulls, []) =
      Some (Inr (ArrayResponse (concat fulls)),
            ([], map (\<lambda>k. storage_page_request creds category additionalFields (1 + int k))
                   [0..<Suc (length fulls)])) \<and>
    executeRecordGetMany pageSource creds i category True limit page False additionalFields
        (ps3, []) =
      Some (Inr (ArrayResponse (concat ps3)),
            ([], [storage_page_request creds category additionalFields 1,
                  storage_page_request creds category additionalFields 2,
                  storage_page_request creds category additionalFields 3])) \<and>
    executeRecordGetMany pageSource creds i category True limit page False additionalFields
        (ps4, []) =
      Some (Inr (ArrayResponse (concat ps4)),
            ([], [storage_page_request creds category additionalFields 1,
                  storage_page_request creds category additionalFields 2,
                  storage_page_request creds category additionalFields 3,
                  storage_page_request creds category additionalFields 4])) \<and>
    legacy_executeRecordGetMany pageSource i category True limit legacyFields
        (fulls @ [short], []) =
      Some (Inr (concat fulls @ short),
            ([], map (\<lambda>k. legacy_page_request category legacyFields (1 + int k) 1000)
                   [0..<Suc (length fulls)])) \<and>
    legacy_executeRecordGetMany pageSource i category True limit legacyFields (fulls, []) =
      Some (Inr (concat fulls),
            ([], map (\<lambda>k. legacy_page_request category legacyFields (1 + int k) 1000)
                   [0..<Suc (length fulls)]))"
proof -
  obtain p1 p2 p3 where ps3: "ps3 = [p1, p2] @ [p3]"
    and l3: "\<forall>p\<in>set [p1, p2]. length p = 1000" "length p3 \<noteq> 1000" "length p3 = 37"
    using map_length_three [OF three] by auto
  obtain q1 q2 q3 where ps4: "ps4 = [q1, q2, q3]"
    and l4: "\<forall>p\<in>set [q1, q2, q3]. length p = 1000"
    using map_length_three [OF four] by auto
  have step_full: "fetchPage cursor w = (Inr items, w') \<and> length items = 1000 \<longrightarrow>
       collectPages fetchPage advance cursor allItems w =
       collectPages fetchPage advance (advance cursor) (allItems @ items) w'"
    using collectPages_full [of fetchPage cursor w items w' advance allItems]
    by (simp add: MAX_LIMIT_PER_REQUEST_def)
  have step_short: "fetchPage cursor w = (Inr items, w') \<and> length items \<noteq> 1000 \<longrightarrow>
       collectPages fetchPage advance cursor allItems w = Some (Inr (allItems @ items), w')"
    using collectPages_short [of fetchPage cursor w items w' advance allItems]
    by (simp add: MAX_LIMIT_PER_REQUEST_def)
  have f3: "executeFileGetMany pageSource creds i category True limit options (ps3, []) =
      Some (Inr (concat ps3),
            ([], [files_page_request creds category options (or_zero (gm_offset options)),
                  files_page_request creds category options (or_zero (gm_offset options) + 1000),
                  files_page_request creds category options (or_zero (gm_offset options) + 2000)]))"
    unfolding ps3 using files_collect_short [OF l3(1) l3(2), of creds i category limit options]
    by simp
  have n3: "length (concat ps3) = 2037"
    using ps3 l3 by simp
  have f4: "executeFileGetMany pageSource creds i category True limit options (ps4, []) =
      Some (Inr (concat ps4),
            ([], [files_page_request creds category options (or_zero (gm_offset options)),
                  files_page_request creds category options (or_zero (gm_offset options) + 1000),
                  files_page_request creds category options (or_zero (gm_offset options) + 2000),
                  files_page_request creds category options (or_zero (gm_offset options) + 3000)]))"
    unfolding ps4 using files_collect_all_full [OF l4, of creds i category limit options]
    by simp
  have n4: "length (concat ps4) = 3000"
    using ps4 l4 by simp
  have r3: "executeRecordGetMany pageSource creds i category True limit page False
        additionalFields (ps3, []) =
      Some (Inr (ArrayResponse (concat ps3)),
            ([], [storage_page_request creds category additionalFields 1,
                  storage_page_request creds category additionalFields 2,
                  storage_page_request creds category additionalFields 3]))"
    unfolding ps3
    using records_collect_short [OF l3(1) l3(2), of creds i category limit page additionalFields]
    by simp
  have r4: "executeRecordGetMany pageSource creds i category True limit page False
        additionalFields (ps4, []) =
      Some (Inr (ArrayResponse (concat ps4)),
            ([], [storage_page_request creds category additionalFields 1,
                  storage_page_request creds category additionalFields 2,
                  storage_page_request creds category additionalFields 3,
                  storage_page_request creds category additionalFields 4]))"
    unfolding ps4
    using records_collect_all_full [OF l4, of creds i category limit page additionalFields]
    by simp
  show ?thesis
    by (intro conjI step_full step_short f3 n3 f4 n4 r3 r4
        files_collect_short [OF full short] files_collect_all_full [OF full]
        records_collect_short [OF full short] records_collect_all_full [OF full]
        legacy_collect_short [OF full short] legacy_collect_all_full [OF full])
qed



theorem returnAll_collects_pages_witness:
  "executeFileGetMany pageSource \<lparr>cred_apiKey = ''key'', cred_baseUrl = None\<rparr> 0 ''invoices'' True 50
     \<lparr>gm_offset = None, gm_prefix = None, gm_sortBy = None, gm_sortOrder = None,
      gm_aggregate = None\<rparr>
     ([replicate 1000 (1::nat), replicate 1000 2, replicate 37 3], []) =
   Some (Inr (concat [replicate 1000 1, replicate 1000 2, replicate 37 3]),
         ([], [files_page_request \<lparr>cred_apiKey = ''key'', cred_baseUrl = None\<rparr> ''invoices''
                 \<lparr>gm_offset = None, gm_prefix = None, gm_sortBy = None, gm_sortOrder = None,
                  gm_aggregate = None\<rparr> 0,
               files_page_request \<lparr>cred_apiKey = ''key'', cred_baseUrl = None\<rparr> ''invoices''
                 \<lparr>gm_offset = None, gm_prefix = None, gm_sortBy = None, gm_sortOrder = None,
                  gm_aggregate = None\<rparr> 1000,
               files_page_request \<lparr>cred_apiKey = ''key'', cred_baseUrl = None\<rparr> ''invoices''
                 \<lparr>gm_offset = None, gm_prefix = None, gm_sortBy = None, gm_sortOrder = None,
                  gm_aggregate = None\<rparr> 2000 :: unit request_options])) \<and>
   length (concat [replicate 1000 (1::nat), replicate 1000 2, replicate 37 3]) = 2037 \<and>
   executeRecordGetMany pageSource \<lparr>cred_apiKey = ''key'', cred_baseUrl = None\<rparr> 0 ''users'' True
     50 1 False \<lparr>sg_sortBy = None, sg_sortOrder = None\<rparr>
     ([replicate 1000 (1::nat), replicate 1000 2, replicate 1000 3], []) =
   Some (Inr (ArrayResponse (concat [replicate 1000 1, replicate 1000 2, replicate 1000 3])),
         ([], [storage_page_request \<lparr>cred_apiKey = ''key'', cred_baseUrl = None\<rparr> ''users''
                 \<lparr>sg_sortBy = None, sg_sortOrder = None\<rparr> 1,
               storage_page_request \<lparr>cred_apiKey = ''key'', cred_baseUrl = None\<rparr> ''users''
                 \<lparr>sg_sortBy = None, sg_sortOrder = None\<rparr> 2,
               storage_page_request \<lparr>cred_apiKey = ''key'', cred_baseUrl = None\<rparr> ''users''
                 \<lparr>sg_sortBy = None, sg_sortOrder = None\<rparr> 3,
               storage_page_request \<lparr>cred_apiKey = ''key'', cred_baseUrl = None\<rparr> ''users''
                 \<lparr>sg_sortBy = None, sg_sortOrder = None\<rparr> 4 :: unit request_options])) \<and>
   length (concat [replicate 1000 (1::nat), replicate 1000 2, replicate 1000 3]) = 3000"
proof -
  let ?creds = "\<lparr>cred_apiKey = ''key'', cred_baseUrl = None\<rparr>"
  let ?opts = "\<lparr>gm_offset = None, gm_prefix = None, gm_sortBy = None, gm_sortOrder = None,
      gm_aggregate = None\<rparr>"
  let ?af = "\<lparr>sg_sortBy = None, sg_sortOrder = None\<rparr>"
  let ?ps3 = "[replicate 1000 (1::nat), replicate 1000 2, replicate 37 3]"
  let ?ps4 = "[replicate 1000 (1::nat), replicate 1000 2, replicate 1000 3]"
  have a: "\<forall>p\<in>set [replicate 1000 (1::nat), replicate 1000 2]. length p = 1000" by simp
  have b: "length (replicate 37 (3::nat)) \<noteq> 1000" by simp
  have c: "map length ?ps3 = [1000, 1000, 37]" by simp
  have d: "map length ?ps4 = [1000, 1000, 1000]" by simp
  have z: "or_zero (gm_offset ?opts) = 0" by (simp add: or_zero_def)
  note t = returnAll_collects_pages [OF a b c d,
      where fetchPage = "\<lambda>(c :: int) (w :: unit). (Inr ([] :: nat list) :: unit + nat list, w)"
        and cursor = 0 and w = "()" and items = "[]" and w' = "()" and advance = id
        and allItems = "[]" and i = 0 and limit = 50 and page = 1
        and creds = ?creds and options = ?opts and additionalFields = ?af
        and legacyFields = "\<lparr>lg_sortBy = None, lg_sortOrder = None, lg_aggregate = None\<rparr>"]
  have f3: "executeFileGetMany pageSource ?creds 0 ''invoices'' True 50 ?opts (?ps3, []) =
      Some (Inr (concat ?ps3),
            ([], [files_page_request ?creds ''invoices'' ?opts 0,
                  files_page_request ?creds ''invoices'' ?opts 1000,
                  files_page_request ?creds ''invoices'' ?opts 2000 :: unit request_options]))"
    using t [of "''invoices''", THEN conjunct2, THEN conjunct2, THEN conjunct2, THEN conjunct2,
        THEN conjunct1] unfolding z by simp
  have r4: "executeRecordGetMany pageSource ?creds 0 ''users'' True 50 1 False ?af (?ps4, []) =
      Some (Inr (ArrayResponse (concat ?ps4)),
            ([], [storage_page_request ?creds ''users'' ?af 1,
                  storage_page_request ?creds ''users'' ?af 2,
                  storage_page_request ?creds ''users'' ?af 3,
                  storage_page_request ?creds ''users'' ?af 4 :: unit request_options]))"
    using t [of "''users''", THEN conjunct2, THEN conjunct2, THEN conjunct2, THEN conjunct2,
        THEN conjunct2, THEN conjunct2, THEN conjunct2, THEN conjunct2, THEN conjunct2,
        THEN conjunct2, THEN conjunct2, THEN conjunct1] by simp
  have n3: "length (concat ?ps3) = 2037" and n4: "length (concat ?ps4) = 3000"
    by simp_all
  show ?thesis
    by (intro conjI f3 n3 r4 n4)
qed

section \<open>Properties of the aggregated listing\<close>

lemma categories_loop_result:
  "collectPages
     (\<lambda>page. fetchItems http
        (\<lambda>error. handleApiError error i ''get categories'' Record)
        (categories_page_request creds page))
     (\<lambda>page. page + 1) 1 [] w = Some (Inr allItems, w') \<Longrightarrow>
   storage_executeCategoryGetMany http creds i True limit page aggregate w =
   Some (Inr (if aggregate then ObjectResponse (aggregated None allItems)
              else ArrayResponse allItems), w')"
  by (simp add: storage_executeCategoryGetMany_def)

lemma records_returnAll_aggregate:
  "executeRecordGetMany http creds i category True limit page False additionalFields w =
     Some (Inr (ArrayResponse allItems), w') \<Longrightarrow>
   executeRecordGetMany http creds i category True limit page True additionalFields w =
     Some (Inr (ObjectResponse (aggregated (Some category) allItems)), w')"
  by (auto simp: executeRecordGetMany_def split: option.splits prod.splits sum.splits)

lemma categories_returnAll_aggregate:
  "storage_executeCategoryGetMany http creds i True limit page False w =
     Some (Inr (ArrayResponse allItems), w') \<Longrightarrow>
   storage_executeCategoryGetMany http creds i True limit page True w =
     Some (Inr (ObjectResponse (aggregated None allItems)), w')"
  by (auto simp: storage_executeCategoryGetMany_def split: option.splits prod.splits sum.splits)

lemma categories_collect_short:
  assumes "\<forall>p\<in>set fulls. length p = 1000" and "length short \<noteq> 1000"
  shows "storage_executeCategoryGetMany pageSource creds i True limit page False
           (fulls @ [short], []) =
     Some (Inr (ArrayResponse (concat fulls @ short)),
           ([], map (\<lambda>k. categories_page_request creds (1 + int k)) [0..<Suc (length fulls)]))"
  apply (rule trans [OF categories_loop_result])
   apply (rule collectPages_pageSource_short)
  using assms
    apply (simp_all add: funpow_add_const MAX_LIMIT_PER_REQUEST_def del: upt_Suc)
  done

text \<open>
  Claim C10. In the Storage node, with Return All and Aggregate both set, the record
  listing and the category listing return one wrapper object built by the node itself:
  whatever list the collector returns without Aggregate, with Aggregate the result is the
  wrapper whose items are that list, whose totalCount and pageSize are its length, and
  whose page and totalPages are 1 (with the category for records). On the page source
  the wrapper holds the concatenation of all pages, however many requests were issued.
\<close>

theorem returnAll_aggregate_wrapper:
  assumes full: "\<forall>p\<in>set fulls. length p = 1000" and short: "length short \<noteq> 1000"
  shows
   "(executeRecordGetMany http creds i category True limit page False additionalFields w =
       Some (Inr (ArrayResponse allItems), w') \<longrightarrow>
     executeRecordGetMany http creds i category True limit page True additionalFields w =
       Some (Inr (ObjectResponse
                \<lparr>agg_category = Some category, agg_items = Some allItems,
                 agg_totalCount = int (length allItems), agg_page = 1,
                 agg_pageSize = int (length allItems), agg_totalPages = 1\<rparr>), w')) \<and>
    (storage_executeCategoryGetMany http creds i True limit page False w =
       Some (Inr (ArrayResponse allItems), w') \<longrightarrow>
     storage_executeCategoryGetMany http creds i True limit page True w =
       Some (Inr (ObjectResponse
                \<lparr>agg_category = None, agg_items = Some allItems,
                 agg_totalCount = int (length allItems), agg_page = 1,
                 agg_pageSize = int (length allItems), agg_totalPages = 1\<rparr>), w')) \<and>
    executeRecordGetMany pageSource creds i category True limit page True additionalFields
        (fulls @ [short], []) =
      Some (Inr (ObjectResponse
               \<lparr>agg_category = Some category, agg_items = Some (concat fulls @ short),
                agg_totalCount = int (length (concat fulls @ short)), agg_page = 1,
                agg_pageSize = int (length (concat fulls @ short)), agg_totalPages = 1\<rparr>),
            ([], map (\<lambda>k. storage_page_request creds category additionalFields (1 + int k))
                   [0..<Suc (length fulls)])) \<and>
    storage_executeCategoryGetMany pageSource creds i True limit page True
        (fulls @ [short], []) =
      Some (Inr (ObjectResponse
               \<lparr>agg_category = None, agg_items = Some (concat fulls @ short),
                agg_totalCount = int (length (concat fulls @ short)), agg_page = 1,
                agg_pageSize = int (length (concat fulls @ short)), agg_totalPages = 1\<rparr>),
            ([], map (\<lambda>k. categories_page_request creds (1 + int k))
                   [0..<Suc (length fulls)]))"
proof -
  have a: "executeRecordGetMany http creds i category True limit page False additionalFields w =
       Some (Inr (ArrayResponse allItems), w') \<longrightarrow>
     executeRecordGetMany http creds i category True limit page True additionalFields w =
       Some (Inr (ObjectResponse
                \<lparr>agg_category = Some category, agg_items = Some allItems,
                 agg_totalCount = int (length allItems), agg_page = 1,
                 agg_pageSize = int (length allItems), agg_totalPages = 1\<rparr>), w')"
    using records_returnAll_aggregate [of http creds i category limit page additionalFields w
        allItems w']
    by (simp add: aggregated_def)
  have b: "storage_executeCategoryGetMany http creds i True limit page False w =
       Some (Inr (ArrayResponse allItems), w') \<longrightarrow>
     storage_executeCategoryGetMany http creds i True limit page True w =
       Some (Inr (ObjectResponse
                \<lparr>agg_category = None, agg_items = Some allItems,
                 agg_totalCount = int (length allItems), agg_page = 1,
                 agg_pageSize = int (length allItems), agg_totalPages = 1\<rparr>), w')"
    using categories_returnAll_aggregate [of http creds i limit page w allItems w']
    by (simp add: aggregated_def)
  have c: "executeRecordGetMany pageSource creds i category True limit page True additionalFields
        (fulls @ [short], []) =
      Some (Inr (ObjectResponse
               \<lparr>agg_category = Some category, agg_items = Some (concat fulls @ short),
                agg_totalCount = int (length (concat fulls @ short)), agg_page = 1,
                agg_pageSize = int (length (concat fulls @ short)), agg_totalPages = 1\<rparr>),
            ([], map (\<lambda>k. storage_page_request creds category additionalFields (1 + int k))
                   [0..<Suc (length fulls)]))"
    using records_returnAll_aggregate [OF records_collect_short [OF full short]]
    by (simp add: aggregated_def del: upt_Suc)
  have d: "storage_executeCategoryGetMany pageSource creds i True limit page True
        (fulls @ [short], []) =
      Some (Inr (ObjectResponse
               \<lparr>agg_category = None, agg_items = Some (concat fulls @ short),
                agg_totalCount = int (length (concat fulls @ short)), agg_page = 1,
                agg_pageSize = int (length (concat fulls @ short)), agg_totalPages = 1\<rparr>),
            ([], map (\<lambda>k. categories_page_request creds (1 + int k))
                   [0..<Suc (length fulls)]))"
    using categories_returnAll_aggregate [OF categories_collect_short [OF full short]]
    by (simp add: aggregated_def del: upt_Suc)
  show ?thesis
    by (intro conjI a b c d)
qed


theorem returnAll_aggregate_wrapper_witness:
  "executeRecordGetMany pageSource \<lparr>cred_apiKey = ''key'', cred_baseUrl = None\<rparr> 0 ''users'' True
     50 1 True \<lparr>sg_sortBy = None, sg_sortOrder = None\<rparr>
     ([replicate 1000 (1::nat), [7, 8]], []) =
   Some (Inr (ObjectResponse
            \<lparr>agg_category = Some ''users'', agg_items = Some (replicate 1000 1 @ [7, 8]),
             agg_totalCount = 1002, agg_page = 1, agg_pageSize = 1002, agg_totalPages = 1\<rparr>),
         ([], [storage_page_request \<lparr>cred_apiKey = ''key'', cred_baseUrl = None\<rparr> ''users''
                 \<lparr>sg_sortBy = None, sg_sortOrder = None\<rparr> 1,
               storage_page_request \<lparr>cred_apiKey = ''key'', cred_baseUrl = None\<rparr> ''users''
                 \<lparr>sg_sortBy = None, sg_sortOrder = None\<rparr> 2 :: unit request_options])) \<and>
   storage_executeCategoryGetMany pageSource \<lparr>cred_apiKey = ''key'', cred_baseUrl = None\<rparr> 0
     True 50 1 True ([replicate 1000 (1::nat), [7, 8]], []) =
   Some (Inr (ObjectResponse
            \<lparr>agg_category = None, agg_items = Some (replicate 1000 1 @ [7, 8]),
             agg_totalCount = 1002, agg_page = 1, agg_pageSize = 1002, agg_totalPages = 1\<rparr>),
         ([], [categories_page_request \<lparr>cred_apiKey = ''key'', cred_baseUrl = None\<rparr> 1,
               categories_page_request \<lparr>cred_apiKey = ''key'', cred_baseUrl = None\<rparr> 2
                 :: unit request_options]))"
proof -
  have a: "\<forall>p\<in>set [replicate 1000 (1::nat)]. length p = 1000" by simp
  have b: "length [7, 8 :: nat] \<noteq> 1000" by simp
  note t = returnAll_aggregate_wrapper [OF a b,
      where http = "pageSource :: (unit, nat, nat list list \<times> unit request_options list) transport"
        and w = "([], [])" and w' = "([], [])" and allItems = "[]" and i = 0 and limit = 50
        and page = 1 and creds = "\<lparr>cred_apiKey = ''key'', cred_baseUrl = None\<rparr>"
        and category = "''users''" and additionalFields = "\<lparr>sg_sortBy = None, sg_sortOrder = None\<rparr>"]
  show ?thesis
    using t [THEN conjunct2, THEN conjunct2]
    by simp
qed

section \<open>Properties of the response shapes\<close>




section \<open>Properties of the request paths\<close>
























section \<open>Properties of the request timeouts\<close>

lemma uploadViaBinary_timeout:
  "req_timeout (uploadViaBinary creds binaryData url m additionalFields now rnd) = Some 600000"
  by (simp add: uploadViaBinary_def Let_def UPLOAD_TIMEOUT_MS_def)

lemma uploadViaUrl_timeout:
  "uploadViaUrl creds sourceUrl i url m additionalFields now rnd = Inr r \<Longrightarrow>
   req_timeout r = Some 600000"
  by (auto simp: uploadViaUrl_def Let_def UPLOAD_TIMEOUT_MS_def split: if_splits)

lemma submitViaBinary_timeout:
  "req_timeout (submitViaBinary creds binaryData languages outputs convertFields now rnd) =
   Some 600000"
  by (simp add: submitViaBinary_def Let_def REQUEST_TIMEOUT_MS_def)

lemma submitViaUrl_timeout:
  "submitViaUrl creds sourceUrl i languages outputs convertFields = Inr r \<Longrightarrow>
   req_timeout r = Some 600000"
  by (auto simp: submitViaUrl_def REQUEST_TIMEOUT_MS_def split: if_splits)

text \<open>
  Claim C8, as amended. The upload requests (binary upload and URL upload of the Files
  node, for Create and for Create or Replace) and the submit requests of the Convert
  node (by URL and by binary file) carry a timeout of 600000 ms. The download request
  of the Files node and every other request of the three nodes set no timeout.
\<close>

theorem request_timeouts:
  "req_timeout (uploadViaBinary creds binaryData url m additionalFields now rnd) =
     Some 600000 \<and>
   (sourceUrl \<noteq> [] \<longrightarrow>
      (\<exists>r :: 'u request_options.
           uploadViaUrl creds sourceUrl i url m additionalFields now rnd = Inr r \<and>
           req_timeout r = Some 600000)) \<and>
   (files_executeCreate creds src i category inputSource createOptions now rnd = Inr r1 \<longrightarrow>
      req_timeout r1 = Some 600000) \<and>
   (files_executeCreateOrReplace creds src i category key inputSource expiresAt now rnd =
      Inr r2 \<longrightarrow> req_timeout r2 = Some 600000) \<and>
   req_timeout (submitViaBinary creds binaryData languages outputs convertFields now rnd) =
     Some 600000 \<and>
   (sourceUrl \<noteq> [] \<longrightarrow>
      (\<exists>r. submitViaUrl creds sourceUrl i languages outputs convertFields = Inr r \<and>
           req_timeout r = Some 600000)) \<and>
   (executeConvert creds src i inputSource languages outputs convertFields now rnd = Inr r3 \<longrightarrow>
      req_timeout r3 = Some 600000) \<and>
   req_timeout (files_executeDownload creds category key) = None \<and>
   req_timeout (files_executeDelete creds category key) = None \<and>
   req_timeout (files_executeGetMetadata creds category key) = None \<and>
   req_timeout (files_executeGetUrl creds category key expirySeconds) = None \<and>
   req_timeout (files_page_request creds category options offset) = None \<and>
   req_timeout (files_limit_request creds category options limit) = None \<and>
   req_timeout (files_executeCategoryGetMany creds) = None \<and>
   (executeGetResult creds i jobId = Inr r4 \<longrightarrow> req_timeout r4 = None) \<and>
   req_timeout (storage_executeCreate creds category createFields data) = None \<and>
   req_timeout (storage_executeCreateOrReplace creds category key expiresAt expiresMs data) =
     None \<and>
   req_timeout (storage_executeUpdate creds category key data) = None \<and>
   req_timeout (storage_executeGet creds category key) = None \<and>
   req_timeout (storage_executeDelete creds category key) = None \<and>
   req_timeout (storage_executeGetMetadata creds category key) = None \<and>
   req_timeout (storage_page_request creds category storageFields page) = None \<and>
   req_timeout (storage_limit_request creds category storageFields limit page aggregate) =
     None \<and>
   req_timeout (categories_page_request creds page) = None \<and>
   req_timeout (categories_limit_request creds limit page aggregate) = None \<and>
   req_timeout (legacy_page_request category legacyFields page limit) = None"
proof -
  have upurl_ex: "sourceUrl \<noteq> [] \<longrightarrow>
      (\<exists>r :: 'u request_options.
           uploadViaUrl creds sourceUrl i url m additionalFields now rnd = Inr r \<and>
           req_timeout r = Some 600000)"
    by (simp add: uploadViaUrl_def Let_def UPLOAD_TIMEOUT_MS_def)
  have create: "files_executeCreate creds src i category inputSource createOptions now rnd =
      Inr r1 \<longrightarrow> req_timeout r1 = Some 600000"
    using uploadViaBinary_timeout uploadViaUrl_timeout
    by (auto simp: files_executeCreate_def Let_def split: if_splits)
  have replace: "files_executeCreateOrReplace creds src i category key inputSource expiresAt
      now rnd = Inr r2 \<longrightarrow> req_timeout r2 = Some 600000"
    using uploadViaBinary_timeout uploadViaUrl_timeout
    by (auto simp: files_executeCreateOrReplace_def Let_def split: if_splits)
  have suburl_ex: "sourceUrl \<noteq> [] \<longrightarrow>
      (\<exists>r. submitViaUrl creds sourceUrl i languages outputs convertFields = Inr r \<and>
           req_timeout r = Some 600000)"
    by (simp add: submitViaUrl_def REQUEST_TIMEOUT_MS_def)
  have convert: "executeConvert creds src i inputSource languages outputs convertFields now rnd =
      Inr r3 \<longrightarrow> req_timeout r3 = Some 600000"
    using submitViaBinary_timeout submitViaUrl_timeout
    by (auto simp: executeConvert_def split: if_splits)
  have files_plain:
    "req_timeout (files_executeDownload creds category key) = None"
    "req_timeout (files_executeDelete creds category key) = None"
    "req_timeout (files_executeGetMetadata creds category key) = None"
    "req_timeout (files_executeGetUrl creds category key expirySeconds) = None"
    "req_timeout (files_page_request creds category options offset) = None"
    "req_timeout (files_limit_request creds category options limit) = None"
    "req_timeout (files_executeCategoryGetMany creds) = None"
    by (simp_all add: files_executeDownload_def files_executeDelete_def
        files_executeGetMetadata_def files_executeGetUrl_def files_page_request_def
        files_limit_request_def files_executeCategoryGetMany_def request_def)
  have job: "executeGetResult creds i jobId = Inr r4 \<longrightarrow> req_timeout r4 = None"
    by (auto simp: executeGetResult_def request_def split: if_splits)
  have storage_plain:
    "req_timeout (storage_executeCreate creds category createFields data) = None"
    "req_timeout (storage_executeCreateOrReplace creds category key expiresAt expiresMs data) =
       None"
    "req_timeout (storage_executeUpdate creds category key data) = None"
    "req_timeout (storage_executeGet creds category key) = None"
    "req_timeout (storage_executeDelete creds category key) = None"
    "req_timeout (storage_executeGetMetadata creds category key) = None"
    "req_timeout (storage_page_request creds category storageFields page) = None"
    "req_timeout (storage_limit_request creds category storageFields limit page aggregate) =
       None"
    "req_timeout (categories_page_request creds page) = None"
    "req_timeout (categories_limit_request creds limit page aggregate) = None"
    "req_timeout (legacy_page_request category legacyFields page limit) = None"
    by (simp_all add: storage_executeCreate_def storage_executeCreateOrReplace_def
        storage_executeUpdate_def storage_executeGet_def storage_executeDelete_def
        storage_executeGetMetadata_def storage_page_request_def storage_limit_request_def
        categories_page_request_def categories_limit_request_def legacy_page_request_def
        request_def Let_def)
  show ?thesis
    by (intro conjI uploadViaBinary_timeout upurl_ex create replace submitViaBinary_timeout
        suburl_ex convert files_plain job storage_plain)
qed

text \<open>
  The download request carries no ten-minute timeout.
\<close>

theorem request_timeouts_counterexample:
  "req_timeout (files_executeDownload \<lparr>cred_apiKey = ''key'', cred_baseUrl = None\<rparr>
      ''docs'' ''report.pdf'' :: unit request_options) \<noteq> Some 600000"
  by (simp add: files_executeDownload_def request_def)

theorem request_timeouts_witness:
  "(\<exists>r :: unit request_options.
      uploadViaUrl \<lparr>cred_apiKey = ''key'', cred_baseUrl = None\<rparr>
        ''https://example.com/a.pdf'' 0 ''/api/v1/files/docs'' POST [] 0 ''abc'' = Inr r \<and>
      req_timeout r = Some 600000) \<and>
   (\<exists>r. submitViaUrl \<lparr>cred_apiKey = ''key'', cred_baseUrl = None\<rparr>
        ''https://example.com/a.pdf'' 0 [''en''] [''text'']
        \<lparr>cv_response = None, cv_models = None, cv_webhookUrl = None, cv_reference = None,
         cv_jobExpiryInMinutes = None\<rparr> = Inr r \<and>
      req_timeout r = Some 600000)"
proof -
  have k: "''https://example.com/a.pdf'' \<noteq> []" by simp
  note t1 = request_timeouts [where ?'u = unit, THEN conjunct2, THEN conjunct1, rule_format, OF k]
  note t2 = request_timeouts [THEN conjunct2, THEN conjunct2, THEN conjunct2, THEN conjunct2,
      THEN conjunct2, THEN conjunct1, rule_format, OF k]
  show ?thesis
    by (intro conjI t1 t2)
qed

section \<open>Properties of the multipart body builders\<close>

lemma pushFields_eq:
  "pushFields boundary fs parts =
   parts @ map (\<lambda>f. fieldPart boundary (fst f) (snd f)) (filter (\<lambda>f. snd f \<noteq> []) fs)"
  by (induction fs arbitrary: parts) auto

lemma formFieldsBody_eq:
  "formFieldsBody boundary fs acc =
   acc @ concat (map (\<lambda>f. fieldPart boundary (fst f) (snd f)) fs)"
  by (induction fs arbitrary: acc) auto

lemma render_field_part: "render_part boundary (field_part f) = fieldPart boundary (fst f) (snd f)"
  by (simp add: render_part_def field_part_def fieldPart_def)

lemma render_file_part:
  "render_part boundary (file_part fileName mimeType fileBuffer) =
   filePreamble boundary fileName mimeType @ fileBuffer @ CRLF"
  by (simp add: render_part_def file_part_def filePreamble_def)

lemma buildMultipartBody_render:
  "mp_body (buildMultipartBody fileBuffer fileName mimeType additionalFields now rnd) =
   render_multipart (formBoundary now rnd)
     (file_part fileName mimeType fileBuffer #
      map field_part (filter (\<lambda>f. snd f \<noteq> []) additionalFields))"
  by (simp add: buildMultipartBody_def Let_def pushFields_eq render_multipart_def
      render_file_part closingBoundary_def comp_def render_field_part)

lemma buildUrlMultipartBody_render:
  "mp_body (buildUrlMultipartBody sourceUrl additionalFields now rnd) =
   render_multipart (formBoundary now rnd)
     (field_part (''sourceUrl'', sourceUrl) #
      map field_part (filter (\<lambda>f. snd f \<noteq> []) additionalFields))"
  by (simp add: buildUrlMultipartBody_def Let_def pushFields_eq render_multipart_def
      closingBoundary_def comp_def render_field_part)

lemma submitViaBinary_body_render:
  "mp_body (submitViaBinary_body binaryData languages outputs additionalFields now rnd) =
   render_multipart (formBoundary now rnd)
     (map field_part (formFields languages outputs additionalFields) @
      [file_part (or_default (bin_fileName binaryData) ''file'')
         (or_default (bin_mimeType binaryData) ''application/octet-stream'')
         (bin_buffer binaryData)])"
  by (simp add: submitViaBinary_body_def Let_def formFieldsBody_eq render_multipart_def
      render_file_part comp_def render_field_part)

text \<open>
  Claim C3. The body the builders produce is the rendering of their parts in the order
  the parts are pushed: each part begins with \<^verbatim>\<open>--{boundary}\<close> and CRLF, then the
  Content-Disposition header with the name (with the filename, and followed by a
  Content-Type header, for the file part), a blank line, the payload and a trailing CRLF,
  and the body ends with \<^verbatim>\<open>--{boundary}--\<close> and CRLF. For \<^verbatim>\<open>buildMultipartBody\<close> the parts
  are the file and then the extra fields with a non-empty value, for
  \<^verbatim>\<open>buildUrlMultipartBody\<close> the source URL and then those fields, for the body of
  \<^verbatim>\<open>submitViaBinary\<close> the form fields and then the file; the boundary returned is the
  one used. When every extra field has a non-empty value, every extra field has its part.
\<close>

theorem multipart_wire_format:
  "mp_body (buildMultipartBody fileBuffer fileName mimeType additionalFields now rnd) =
     render_multipart (formBoundary now rnd)
       (file_part fileName mimeType fileBuffer #
        map field_part (filter (\<lambda>f. snd f \<noteq> []) additionalFields)) \<and>
   mp_boundary (buildMultipartBody fileBuffer fileName mimeType additionalFields now rnd) =
     formBoundary now rnd \<and>
   mp_body (buildUrlMultipartBody sourceUrl additionalFields now rnd) =
     render_multipart (formBoundary now rnd)
       (field_part (''sourceUrl'', sourceUrl) #
        map field_part (filter (\<lambda>f. snd f \<noteq> []) additionalFields)) \<and>
   mp_boundary (buildUrlMultipartBody sourceUrl additionalFields now rnd) =
     formBoundary now rnd \<and>
   mp_body (submitViaBinary_body binaryData languages outputs convertFields now rnd) =
     render_multipart (formBoundary now rnd)
       (map field_part (formFields languages outputs convertFields) @
        [file_part (or_default (bin_fileName binaryData) ''file'')
           (or_default (bin_mimeType binaryData) ''application/octet-stream'')
           (bin_buffer binaryData)]) \<and>
   mp_boundary (submitViaBinary_body binaryData languages outputs convertFields now rnd) =
     formBoundary now rnd \<and>
   ((\<forall>f\<in>set additionalFields. snd f \<noteq> []) \<longrightarrow>
      mp_body (buildMultipartBody fileBuffer fileName mimeType additionalFields now rnd) =
        render_multipart (formBoundary now rnd)
          (file_part fileName mimeType fileBuffer # map field_part additionalFields) \<and>
      mp_body (buildUrlMultipartBody sourceUrl additionalFields now rnd) =
        render_multipart (formBoundary now rnd)
          (field_part (''sourceUrl'', sourceUrl) # map field_part additionalFields))"
proof -
  have b: "mp_boundary (buildMultipartBody fileBuffer fileName mimeType additionalFields now rnd) =
      formBoundary now rnd"
    "mp_boundary (buildUrlMultipartBody sourceUrl additionalFields now rnd) =
      formBoundary now rnd"
    "mp_boundary (submitViaBinary_body binaryData languages outputs convertFields now rnd) =
      formBoundary now rnd"
    by (simp_all add: buildMultipartBody_def buildUrlMultipartBody_def
        submitViaBinary_body_def Let_def)
  have all: "(\<forall>f\<in>set additionalFields. snd f \<noteq> []) \<longrightarrow>
      mp_body (buildMultipartBody fileBuffer fileName mimeType additionalFields now rnd) =
        render_multipart (formBoundary now rnd)
          (file_part fileName mimeType fileBuffer # map field_part additionalFields) \<and>
      mp_body (buildUrlMultipartBody sourceUrl additionalFields now rnd) =
        render_multipart (formBoundary now rnd)
          (field_part (''sourceUrl'', sourceUrl) # map field_part additionalFields)"
  proof
    assume "\<forall>f\<in>set additionalFields. snd f \<noteq> []"
    then have "filter (\<lambda>f. snd f \<noteq> []) additionalFields = additionalFields"
      by (simp add: filter_id_conv)
    then show "mp_body (buildMultipartBody fileBuffer fileName mimeType additionalFields now rnd) =
        render_multipart (formBoundary now rnd)
          (file_part fileName mimeType fileBuffer # map field_part additionalFields) \<and>
      mp_body (buildUrlMultipartBody sourceUrl additionalFields now rnd) =
        render_multipart (formBoundary now rnd)
          (field_part (''sourceUrl'', sourceUrl) # map field_part additionalFields)"
      using buildMultipartBody_render [of fileBuffer fileName mimeType additionalFields now rnd]
        buildUrlMultipartBody_render [of sourceUrl additionalFields now rnd]
      by simp
  qed
  show ?thesis
    by (intro conjI buildMultipartBody_render buildUrlMultipartBody_render
        submitViaBinary_body_render b all)
qed


theorem multipart_wire_format_witness:
  \<open>mp_body (buildMultipartBody ''hello'' ''a.txt'' ''text/plain''
      [(''expiresAt'', ''2030-01-01'')] 1700000000000 ''k3j9x2'') =
   ''------n8nFormBoundary1700000000000k3j9x2'' @ CRLF @
   ''Content-Disposition: form-data; name="file"; filename="a.txt"'' @ CRLF @
   ''Content-Type: text/plain'' @ CRLF @
   CRLF @
   ''hello'' @ CRLF @
   ''------n8nFormBoundary1700000000000k3j9x2'' @ CRLF @
   ''Content-Disposition: form-data; name="expiresAt"'' @ CRLF @
   CRLF @
   ''2030-01-01'' @ CRLF @
   ''------n8nFormBoundary1700000000000k3j9x2--'' @ CRLF\<close>
proof -
  have h: "\<forall>f\<in>set [(''expiresAt'', ''2030-01-01'')]. snd f \<noteq> []"
    by simp
  have b: "formBoundary 1700000000000 ''k3j9x2'' = ''----n8nFormBoundary1700000000000k3j9x2''"
    by (simp add: formBoundary_def toString_def digits.simps)
  note t = multipart_wire_format [where additionalFields = "[(''expiresAt'', ''2030-01-01'')]",
      THEN conjunct2, THEN conjunct2, THEN conjunct2, THEN conjunct2, THEN conjunct2,
      THEN conjunct2, THEN mp, OF h, THEN conjunct1]
  show ?thesis
    unfolding t b
    by (simp add: render_multipart_def render_part_def file_part_def field_part_def)
qed

lemma buildMultipartBody_skip:
  "buildMultipartBody fileBuffer fileName mimeType (fs1 @ (name, []) # fs2) now rnd =
   buildMultipartBody fileBuffer fileName mimeType (fs1 @ fs2) now rnd"
  by (simp add: buildMultipartBody_def Let_def pushFields_eq)

lemma buildUrlMultipartBody_skip:
  "buildUrlMultipartBody sourceUrl (fs1 @ (name, []) # fs2) now rnd =
   buildUrlMultipartBody sourceUrl (fs1 @ fs2) now rnd"
  by (simp add: buildUrlMultipartBody_def Let_def pushFields_eq)

text \<open>
  Claim C5. An absent or empty expiry is not made a field by the callers, and an extra
  field with an empty value is skipped by both builders: the body
  (and the boundary) built from fields that hold such a field is the one built without
  it. The loop pushes one buffer for each field with a non-empty value and nothing else,
  so no part of an extra field has an empty payload, and when the field names are distinct
  no part carries the name of a field whose value is empty.
\<close>

theorem empty_fields_skipped:
  "files_additionalFields None = [] \<and>
   files_additionalFields (Some []) = [] \<and>
   buildMultipartBody fileBuffer fileName mimeType (fs1 @ (name, []) # fs2) now rnd =
     buildMultipartBody fileBuffer fileName mimeType (fs1 @ fs2) now rnd \<and>
   buildUrlMultipartBody sourceUrl (fs1 @ (name, []) # fs2) now rnd =
     buildUrlMultipartBody sourceUrl (fs1 @ fs2) now rnd \<and>
   pushFields boundary fs parts =
     parts @ map (\<lambda>f. fieldPart boundary (fst f) (snd f)) (filter (\<lambda>f. snd f \<noteq> []) fs) \<and>
   mp_body (buildMultipartBody fileBuffer fileName mimeType fs now rnd) =
     render_multipart (formBoundary now rnd)
       (file_part fileName mimeType fileBuffer #
        map field_part (filter (\<lambda>f. snd f \<noteq> []) fs)) \<and>
   mp_body (buildUrlMultipartBody sourceUrl fs now rnd) =
     render_multipart (formBoundary now rnd)
       (field_part (''sourceUrl'', sourceUrl) #
        map field_part (filter (\<lambda>f. snd f \<noteq> []) fs)) \<and>
   (\<forall>p\<in>set (map field_part (filter (\<lambda>f. snd f \<noteq> []) fs)). part_payload p \<noteq> []) \<and>
   (distinct (map fst fs) \<and> (name, []) \<in> set fs \<longrightarrow>
      name \<notin> set (map part_name (map field_part (filter (\<lambda>f. snd f \<noteq> []) fs))))"
proof -
  have payloads: "\<forall>p\<in>set (map field_part (filter (\<lambda>f. snd f \<noteq> []) fs)). part_payload p \<noteq> []"
    by (auto simp: field_part_def)
  have names: "distinct (map fst fs) \<and> (name, []) \<in> set fs \<longrightarrow>
      name \<notin> set (map part_name (map field_part (filter (\<lambda>f. snd f \<noteq> []) fs)))"
  proof
    assume h: "distinct (map fst fs) \<and> (name, []) \<in> set fs"
    show "name \<notin> set (map part_name (map field_part (filter (\<lambda>f. snd f \<noteq> []) fs)))"
    proof
      assume "name \<in> set (map part_name (map field_part (filter (\<lambda>f. snd f \<noteq> []) fs)))"
      then obtain v where v: "(name, v) \<in> set fs" "v \<noteq> []"
        by (auto simp: field_part_def)
      from h v(1) have "v = []"
        by (meson eq_key_imp_eq_value)
      with v(2) show False by simp
    qed
  qed
  have absent: "files_additionalFields None = []" "files_additionalFields (Some []) = []"
    by (simp_all add: files_additionalFields_def truthy_def)
  show ?thesis
    by (intro conjI absent buildMultipartBody_skip buildUrlMultipartBody_skip pushFields_eq
        buildMultipartBody_render buildUrlMultipartBody_render payloads names)
qed

theorem empty_fields_skipped_witness:
  "buildMultipartBody ''hello'' ''a.txt'' ''text/plain''
     [(''expiresAt'', []), (''note'', ''x'')] 0 ''abc'' =
   buildMultipartBody ''hello'' ''a.txt'' ''text/plain'' [(''note'', ''x'')] 0 ''abc'' \<and>
   ''expiresAt'' \<notin> set (map part_name (map field_part
      (filter (\<lambda>f. snd f \<noteq> []) [(''expiresAt'', []), (''note'', ''x'')])))"
proof -
  have d: "distinct (map fst [(''expiresAt'', []), (''note'', ''x'')]) \<and>
      (''expiresAt'', []) \<in> set [(''expiresAt'', []), (''note'', ''x'')]"
    by simp
  note t1 = empty_fields_skipped [where ?fs1.0 = "[]" and name = "''expiresAt''"
        and ?fs2.0 = "[(''note'', ''x'')]", THEN conjunct2, THEN conjunct2, THEN conjunct1]
  note t2 = empty_fields_skipped [where fs = "[(''expiresAt'', []), (''note'', ''x'')]"
        and name = "''expiresAt''",
      THEN conjunct2, THEN conjunct2, THEN conjunct2, THEN conjunct2, THEN conjunct2,
      THEN conjunct2, THEN conjunct2, THEN conjunct2, THEN mp, OF d]
  show ?thesis
    using t1 t2 by simp
qed

section \<open>Properties of the multipart reader\<close>



































end
